theory Spec2Isabelle
  imports Main
begin

section \<open>Strings and errors\<close>

text \<open>
  A Python \<^verbatim>\<open>str\<close> is a sequence of code points. It is modelled as a \<^typ>\<open>string\<close>
  whose characters are the code points U+0000 to U+00FF (the 8-bit \<^typ>\<open>char\<close> of HOL);
  strings with code points above U+00FF are outside the model. The character classes
  below are those of \<^verbatim>\<open>str.isalpha\<close>, \<^verbatim>\<open>str.isdigit\<close>, \<^verbatim>\<open>str.isspace\<close> and of the
  regular expression class \<^verbatim>\<open>\d\<close> on that range.
\<close>

definition code :: "char \<Rightarrow> nat" where
  "code c = of_char c"

definition is_alpha_char :: "char \<Rightarrow> bool" where
  "is_alpha_char c =
     (let n = code c in
        (65 \<le> n \<and> n \<le> 90) \<or> (97 \<le> n \<and> n \<le> 122) \<or> n = 170 \<or> n = 181 \<or> n = 186 \<or>
        (192 \<le> n \<and> n \<le> 214) \<or> (216 \<le> n \<and> n \<le> 246) \<or> (248 \<le> n \<and> n \<le> 255))"

text \<open>The decimal digits \<^verbatim>\<open>0\<close> to \<^verbatim>\<open>9\<close>: what \<^verbatim>\<open>\d\<close> and \<^verbatim>\<open>str.isdecimal\<close> accept.\<close>

definition is_decimal_char :: "char \<Rightarrow> bool" where
  "is_decimal_char c = (48 \<le> code c \<and> code c \<le> 57)"

text \<open>
  \<^verbatim>\<open>str.isdigit\<close> accepts every character of numeric type Digit or Decimal: besides
  the decimal digits, the superscript digits U+00B2, U+00B3 and U+00B9.
\<close>

definition is_digit_char :: "char \<Rightarrow> bool" where
  "is_digit_char c = (is_decimal_char c \<or> code c = 178 \<or> code c = 179 \<or> code c = 185)"

definition is_space_char :: "char \<Rightarrow> bool" where
  "is_space_char c =
     (let n = code c in (9 \<le> n \<and> n \<le> 13) \<or> (28 \<le> n \<and> n \<le> 32) \<or> n = 133 \<or> n = 160)"

text \<open>\<^verbatim>\<open>s.isalpha()\<close> and \<^verbatim>\<open>s.isdigit()\<close>: at least one character, and all in the class.\<close>

definition isalpha :: "string \<Rightarrow> bool" where
  "isalpha s = (s \<noteq> [] \<and> list_all is_alpha_char s)"

definition isdigit :: "string \<Rightarrow> bool" where
  "isdigit s = (s \<noteq> [] \<and> list_all is_digit_char s)"

text \<open>
  The exceptions of the program, each with its argument, and \<^verbatim>\<open>str(e)\<close>: the message,
  and for a \<^verbatim>\<open>KeyError\<close> the key between quotes. The program raises \<^verbatim>\<open>ValueError\<close> and,
  at the end of the input, \<^verbatim>\<open>EOFError\<close>; the other two are named by \<^verbatim>\<open>input_error\<close>.
\<close>

datatype error = ValueError string | KeyError string | IndexError string | EOFError

fun str :: "error \<Rightarrow> string" where
  "str (ValueError m) = m"
| "str (KeyError k) = [CHR 0x27] @ k @ [CHR 0x27]"
| "str (IndexError m) = m"
| "str EOFError = []"

text \<open>Decimal notation of a natural number, as the library's messages print it.\<close>

fun show_nat :: "nat \<Rightarrow> string" where
  "show_nat n =
     (if n < 10 then [''0123456789'' ! n]
      else show_nat (n div 10) @ [''0123456789'' ! (n mod 10)])"

declare show_nat.simps [simp del]

text \<open>\<^verbatim>\<open>sep.join(xs)\<close>.\<close>

fun join :: "string \<Rightarrow> string list \<Rightarrow> string" where
  "join sep [] = []"
| "join sep [x] = x"
| "join sep (x # y # ys) = x @ sep @ join sep (y # ys)"

text \<open>\<^verbatim>\<open>s.split()\<close>: the maximal runs of characters that are not whitespace.\<close>

fun split_from :: "string \<Rightarrow> string \<Rightarrow> string list" where
  "split_from cur [] = (if cur = [] then [] else [cur])"
| "split_from cur (c # cs) =
     (if is_space_char c then (if cur = [] then split_from [] cs else cur # split_from [] cs)
      else split_from (cur @ [c]) cs)"

definition split_ws :: "string \<Rightarrow> string list" where
  "split_ws s = split_from [] s"

section \<open>Fields\<close>

text \<open>
  A \<^verbatim>\<open>Field\<close> object: its class, its identity and its \<^verbatim>\<open>_value\<close>. None of the classes
  defines \<^verbatim>\<open>__eq__\<close>, so Python compares two fields by identity; \<open>oid\<close> is the
  identity of the object, given to the constructor by whoever allocates it.
\<close>

datatype field_class = NameC | PhoneC | BirthdayC

record Field =
  cls :: field_class
  oid :: nat
  fvalue :: string

text \<open>The property setter \<^verbatim>\<open>Field.value\<close>: it stores whatever it is given.\<close>

definition set_value :: "'a Field_scheme \<Rightarrow> string \<Rightarrow> 'a Field_scheme" where
  "set_value f v = f\<lparr>fvalue := v\<rparr>"

definition Field_init :: "field_class \<Rightarrow> nat \<Rightarrow> string \<Rightarrow> Field" where
  "Field_init c i v = set_value \<lparr>cls = c, oid = i, fvalue = []\<rparr> v"

definition Name_init :: "nat \<Rightarrow> string \<Rightarrow> error + Field" where
  "Name_init i v =
     (if \<not> isalpha v then Inl (ValueError ''Name must contain only alphabetic characters.'')
      else Inr (Field_init NameC i v))"

definition Phone_init :: "nat \<Rightarrow> string \<Rightarrow> error + Field" where
  "Phone_init i v =
     (if \<not> isdigit v \<or> length v \<noteq> 10 then Inl (ValueError ''Phone number must be 10 digits long.'')
      else Inr (Field_init PhoneC i v))"

text \<open>\<^verbatim>\<open>a == b\<close> on fields: the default comparison of \<^verbatim>\<open>object\<close>, identity.\<close>

definition py_eq :: "'a Field_scheme \<Rightarrow> 'b Field_scheme \<Rightarrow> bool" where
  "py_eq a b = (oid a = oid b)"

section \<open>Calendar dates\<close>

text \<open>
  \<^verbatim>\<open>datetime.date\<close> of the standard library: year, month and day of the proleptic
  Gregorian calendar. The constructor checks its fields; \<^verbatim>\<open>replace\<close> builds a new date
  through the constructor; \<^verbatim>\<open><\<close> compares year, month and day in this order; the
  difference of two dates is the difference of their ordinals, in days.
\<close>

record date =
  year :: int
  month :: int
  day :: int

definition is_leap :: "int \<Rightarrow> bool" where
  "is_leap y = (y mod 4 = 0 \<and> (y mod 100 \<noteq> 0 \<or> y mod 400 = 0))"

definition days_in_month :: "int \<Rightarrow> int \<Rightarrow> int" where
  "days_in_month y m =
     (if m = 2 then (if is_leap y then 29 else 28)
      else if m = 4 \<or> m = 6 \<or> m = 9 \<or> m = 11 then 30 else 31)"

definition days_before_month :: "int \<Rightarrow> int \<Rightarrow> int" where
  "days_before_month y m =
     (if m = 1 then 0 else if m = 2 then 31 else if m = 3 then 59 else if m = 4 then 90
      else if m = 5 then 120 else if m = 6 then 151 else if m = 7 then 181
      else if m = 8 then 212 else if m = 9 then 243 else if m = 10 then 273
      else if m = 11 then 304 else 334)
     + (if m > 2 \<and> is_leap y then 1 else 0)"

definition days_before_year :: "int \<Rightarrow> int" where
  "days_before_year y = (y - 1) * 365 + (y - 1) div 4 - (y - 1) div 100 + (y - 1) div 400"

definition toordinal :: "date \<Rightarrow> int" where
  "toordinal d = days_before_year (year d) + days_before_month (year d) (month d) + day d"

definition valid_date :: "date \<Rightarrow> bool" where
  "valid_date d =
     (1 \<le> year d \<and> year d \<le> 9999 \<and> 1 \<le> month d \<and> month d \<le> 12 \<and>
      1 \<le> day d \<and> day d \<le> days_in_month (year d) (month d))"

definition year_out_of_range :: "int \<Rightarrow> error" where
  "year_out_of_range y =
     ValueError (''year '' @ (if y < 0 then ''-'' else []) @ show_nat (nat \<bar>y\<bar>) @ '' is out of range'')"

text \<open>\<^verbatim>\<open>date(y, m, d)\<close>, with the checks in the library's order.\<close>

definition date_new :: "int \<Rightarrow> int \<Rightarrow> int \<Rightarrow> error + date" where
  "date_new y m d =
     (if \<not> (1 \<le> y \<and> y \<le> 9999) then Inl (year_out_of_range y)
      else if \<not> (1 \<le> m \<and> m \<le> 12) then Inl (ValueError ''month must be in 1..12'')
      else if \<not> (1 \<le> d \<and> d \<le> days_in_month y m) then Inl (ValueError ''day is out of range for month'')
      else Inr \<lparr>year = y, month = m, day = d\<rparr>)"

text \<open>\<^verbatim>\<open>d.replace(year=y)\<close>.\<close>

definition replace_year :: "date \<Rightarrow> int \<Rightarrow> error + date" where
  "replace_year d y = date_new y (month d) (day d)"

definition date_lt :: "date \<Rightarrow> date \<Rightarrow> bool" where
  "date_lt a b =
     (year a < year b \<or> (year a = year b \<and> (month a < month b \<or> (month a = month b \<and> day a < day b))))"

text \<open>\<^verbatim>\<open>(a - b).days\<close>.\<close>

definition days_between :: "date \<Rightarrow> date \<Rightarrow> int" where
  "days_between a b = toordinal a - toordinal b"

section \<open>Parsing a birthday\<close>

text \<open>
  \<^verbatim>\<open>datetime.strptime(value, "%d.%m.%Y")\<close> compiles the format to the regular expression
  \<^verbatim>\<open>(?P<d>3[0-1]|[1-2]\d|0[1-9]|[1-9]| [1-9])\.(?P<m>1[0-2]|0[1-9]|[1-9])\.(?P<Y>\d\d\d\d)\<close>,
  matches it at the start of the text, refuses text left over after the match, converts
  the three groups with \<^verbatim>\<open>int\<close> and builds the date. A matcher returns, in the order
  in which a backtracking engine finds them, the ways to match a prefix: the matched
  text and the rest. In the library \<^verbatim>\<open>\d\<close> matches every Unicode decimal digit, and
  \<^verbatim>\<open>int\<close> converts it; among the characters of the model, U+0000 to U+00FF, these are
  \<^verbatim>\<open>0\<close> to \<^verbatim>\<open>9\<close> only, so a text with a digit of another script (a year in
  Arabic-Indic digits, which the library accepts) is outside the model.
\<close>

type_synonym matcher = "string \<Rightarrow> (string \<times> string) list"

definition re_class :: "(char \<Rightarrow> bool) \<Rightarrow> matcher" where
  "re_class P s = (case s of [] \<Rightarrow> [] | c # r \<Rightarrow> if P c then [([c], r)] else [])"

definition re_seq :: "matcher \<Rightarrow> matcher \<Rightarrow> matcher" where
  "re_seq p q s = concat (map (\<lambda>(a, r). map (\<lambda>(b, r'). (a @ b, r')) (q r)) (p s))"

definition re_alt :: "matcher \<Rightarrow> matcher \<Rightarrow> matcher" where
  "re_alt p q s = p s @ q s"

definition re_lit :: "char \<Rightarrow> matcher" where
  "re_lit c = re_class (\<lambda>x. x = c)"

definition re_range :: "char \<Rightarrow> char \<Rightarrow> matcher" where
  "re_range lo hi = re_class (\<lambda>x. code lo \<le> code x \<and> code x \<le> code hi)"

definition re_digit :: matcher where
  "re_digit = re_class is_decimal_char"

definition re_d :: matcher where
  "re_d =
     re_alt (re_seq (re_lit CHR ''3'') (re_range CHR ''0'' CHR ''1''))
    (re_alt (re_seq (re_range CHR ''1'' CHR ''2'') re_digit)
    (re_alt (re_seq (re_lit CHR ''0'') (re_range CHR ''1'' CHR ''9''))
    (re_alt (re_range CHR ''1'' CHR ''9'')
            (re_seq (re_lit CHR '' '') (re_range CHR ''1'' CHR ''9'')))))"

definition re_m :: matcher where
  "re_m =
     re_alt (re_seq (re_lit CHR ''1'') (re_range CHR ''0'' CHR ''2''))
    (re_alt (re_seq (re_lit CHR ''0'') (re_range CHR ''1'' CHR ''9''))
            (re_range CHR ''1'' CHR ''9''))"

definition re_Y :: matcher where
  "re_Y = re_seq re_digit (re_seq re_digit (re_seq re_digit re_digit))"

text \<open>The matches of the whole expression: the groups \<open>d\<close>, \<open>m\<close>, \<open>Y\<close> and the rest.\<close>

definition format_regex :: "string \<Rightarrow> (string \<times> string \<times> string \<times> string) list" where
  "format_regex s =
     [(d, m, y, r5). (d, r1) \<leftarrow> re_d s, (p, r2) \<leftarrow> re_lit CHR ''.'' r1, (m, r3) \<leftarrow> re_m r2,
                     (q, r4) \<leftarrow> re_lit CHR ''.'' r3, (y, r5) \<leftarrow> re_Y r4]"

text \<open>
  \<^verbatim>\<open>int\<close> on a matched group: decimal digits, after whitespace that is skipped (a
  group holds nothing else). The two messages of \<^verbatim>\<open>strptime\<close> itself are kept short:
  \<^verbatim>\<open>Birthday\<close> replaces them by its own.
\<close>

definition py_int :: "string \<Rightarrow> int" where
  "py_int s = foldl (\<lambda>a c. 10 * a + (int (code c) - 48)) 0 (dropWhile is_space_char s)"

definition strptime :: "string \<Rightarrow> error + date" where
  "strptime s =
     (case format_regex s of
        [] \<Rightarrow> Inl (ValueError (''time data '' @ s @ '' does not match format''))
      | (d, m, y, rest) # other \<Rightarrow>
          if rest \<noteq> [] then Inl (ValueError (''unconverted data remains: '' @ rest))
          else date_new (py_int y) (py_int m) (py_int d))"

text \<open>A \<^verbatim>\<open>Birthday\<close> object: a field with the decoded \<^verbatim>\<open>_date\<close>.\<close>

record Birthday = Field +
  date :: date

definition Birthday_init :: "nat \<Rightarrow> string \<Rightarrow> error + Birthday" where
  "Birthday_init i v =
     (case strptime v of
        Inl (ValueError m) \<Rightarrow> Inl (ValueError ''Invalid date format. Use DD.MM.YYYY'')
      | Inl e \<Rightarrow> Inl e
      | Inr d \<Rightarrow> Inr (set_value \<lparr>cls = BirthdayC, oid = i, fvalue = [], date = d\<rparr> v))"

section \<open>Records\<close>

record Record =
  name :: Field
  phones :: "Field list"
  birthday :: "Birthday option"

definition Record_init :: "nat \<Rightarrow> string \<Rightarrow> error + Record" where
  "Record_init i nm =
     (case Name_init i nm of
        Inl e \<Rightarrow> Inl e
      | Inr n \<Rightarrow> Inr \<lparr>name = n, phones = [], birthday = None\<rparr>)"

definition add_phone :: "Record \<Rightarrow> Field \<Rightarrow> error + Record" where
  "add_phone r phone =
     (if cls phone \<noteq> PhoneC then Inl (ValueError ''Phone must be an instance of Phone class.'')
      else Inr (r\<lparr>phones := phones r @ [phone]\<rparr>))"

text \<open>\<^verbatim>\<open>xs.remove(x)\<close>: drops the first item equal to \<open>x\<close> under \<^verbatim>\<open>==\<close>, or raises.\<close>

fun list_remove :: "Field list \<Rightarrow> Field \<Rightarrow> error + Field list" where
  "list_remove [] x = Inl (ValueError ''list.remove(x): x not in list'')"
| "list_remove (y # ys) x =
     (if py_eq y x then Inr ys
      else (case list_remove ys x of Inl e \<Rightarrow> Inl e | Inr zs \<Rightarrow> Inr (y # zs)))"

definition remove_phone :: "Record \<Rightarrow> Field \<Rightarrow> error + Record" where
  "remove_phone r phone =
     (case list_remove (phones r) phone of
        Inl e \<Rightarrow> Inl e
      | Inr ps \<Rightarrow> Inr (r\<lparr>phones := ps\<rparr>))"

definition Record_add_birthday :: "Record \<Rightarrow> Birthday \<Rightarrow> error + Record" where
  "Record_add_birthday r b =
     (if cls b \<noteq> BirthdayC then Inl (ValueError ''Birthday must be an instance of Birthday class.'')
      else Inr (r\<lparr>birthday := Some b\<rparr>))"

text \<open>
  The next occurrence of a birthday, as both \<^verbatim>\<open>days_to_birthday\<close> and
  \<^verbatim>\<open>get_upcoming_birthdays\<close> compute it: the month and day put into today's year, and
  into the year after when that date is before today. \<open>today\<close> is the value of
  \<^verbatim>\<open>datetime.today().date()\<close>.
\<close>

definition next_birthday :: "date \<Rightarrow> date \<Rightarrow> error + date" where
  "next_birthday bd today =
     (case replace_year bd (year today) of
        Inl e \<Rightarrow> Inl e
      | Inr nb \<Rightarrow> if date_lt nb today then replace_year nb (year today + 1) else Inr nb)"

definition days_to_birthday :: "Record \<Rightarrow> date \<Rightarrow> error + int option" where
  "days_to_birthday r today =
     (case birthday r of
        None \<Rightarrow> Inr None
      | Some b \<Rightarrow>
          (case next_birthday (date b) today of
             Inl e \<Rightarrow> Inl e
           | Inr nb \<Rightarrow> Inr (Some (days_between nb today))))"

section \<open>The address book\<close>

text \<open>
  \<^verbatim>\<open>self.records\<close> is a \<^verbatim>\<open>dict\<close>: it keeps its keys in insertion order, and storing
  under a key that is present replaces the value where it stands. It is modelled as
  an association list in that order.
\<close>

fun dict_set :: "'k \<Rightarrow> 'v \<Rightarrow> ('k \<times> 'v) list \<Rightarrow> ('k \<times> 'v) list" where
  "dict_set k v [] = [(k, v)]"
| "dict_set k v ((k', v') # kvs) =
     (if k' = k then (k, v) # kvs else (k', v') # dict_set k v kvs)"

record AddressBook =
  records :: "(string \<times> Record) list"

definition AddressBook_init :: AddressBook where
  "AddressBook_init = \<lparr>records = []\<rparr>"

text \<open>
  \<^verbatim>\<open>add_record\<close>; its argument has the type of a \<^verbatim>\<open>Record\<close>, which decides the
  \<^verbatim>\<open>isinstance\<close> test.
\<close>

definition add_record :: "AddressBook \<Rightarrow> Record \<Rightarrow> AddressBook" where
  "add_record b r = b\<lparr>records := dict_set (fvalue (name r)) r (records b)\<rparr>"

definition find_record :: "AddressBook \<Rightarrow> string \<Rightarrow> Record option" where
  "find_record b nm = map_of (records b) nm"

text \<open>The loop of \<^verbatim>\<open>get_upcoming_birthdays\<close> over \<^verbatim>\<open>self.records.values()\<close>.\<close>

fun upcoming_loop :: "Record list \<Rightarrow> int \<Rightarrow> date \<Rightarrow> string list \<Rightarrow> error + string list" where
  "upcoming_loop [] days today upcoming = Inr upcoming"
| "upcoming_loop (r # rs) days today upcoming =
     (case birthday r of
        None \<Rightarrow> upcoming_loop rs days today upcoming
      | Some b \<Rightarrow>
          (case next_birthday (date b) today of
             Inl e \<Rightarrow> Inl e
           | Inr nb \<Rightarrow>
               upcoming_loop rs days today
                 (if 0 \<le> days_between nb today \<and> days_between nb today < days
                  then upcoming @ [fvalue (name r)] else upcoming)))"

definition get_upcoming_birthdays :: "AddressBook \<Rightarrow> int \<Rightarrow> date \<Rightarrow> error + string list" where
  "get_upcoming_birthdays b days today = upcoming_loop (map snd (records b)) days today []"

section \<open>Command handlers\<close>

text \<open>
  The interpreter's state: the book, and the identity the next allocated object gets.
  A handler returns what it returns or raises, and the state it leaves. A record found
  in the book is the object stored under that key, so a change to it is a change of
  that entry.
\<close>

record state =
  book :: AddressBook
  next_oid :: nat

definition store_record :: "string \<Rightarrow> Record \<Rightarrow> state \<Rightarrow> state" where
  "store_record k r st =
     st\<lparr>book := (book st)\<lparr>records :=
           map (\<lambda>(k', r'). if k' = k then (k', r) else (k', r')) (records (book st))\<rparr>\<rparr>"

definition alloc :: "state \<Rightarrow> state" where
  "alloc st = st\<lparr>next_oid := Suc (next_oid st)\<rparr>"

type_synonym handler = "string list \<Rightarrow> state \<Rightarrow> (error + string) \<times> state"

definition input_error :: "handler \<Rightarrow> handler" where
  "input_error func args st =
     (case func args st of
        (Inl (ValueError m), st') \<Rightarrow> (Inr (str (ValueError m)), st')
      | (Inl (KeyError m), st') \<Rightarrow> (Inr (str (KeyError m)), st')
      | (Inl (IndexError m), st') \<Rightarrow> (Inr (str (IndexError m)), st')
      | (res, st') \<Rightarrow> (res, st'))"

definition unpack_error :: "nat \<Rightarrow> nat \<Rightarrow> error" where
  "unpack_error k n =
     ValueError (''not enough values to unpack (expected at least '' @ show_nat k @ '', got ''
                 @ show_nat n @ '')'')"

text \<open>The part of \<^verbatim>\<open>add_contact\<close> after the record is found or made.\<close>

definition attach_phone :: "string \<Rightarrow> Record \<Rightarrow> string \<Rightarrow> string \<Rightarrow> state \<Rightarrow> (error + string) \<times> state" where
  "attach_phone nm r phone message st =
     (if phone \<noteq> [] then
        (case Phone_init (next_oid st) phone of
           Inl e \<Rightarrow> (Inl e, alloc st)
         | Inr p \<Rightarrow>
             (case add_phone r p of
                Inl e \<Rightarrow> (Inl e, alloc st)
              | Inr r' \<Rightarrow> (Inr message, store_record nm r' (alloc st))))
      else (Inr message, st))"

definition add_contact_body :: handler where
  "add_contact_body args st =
     (case args of
        nm # phone # other \<Rightarrow>
          (case find_record (book st) nm of
             Some r \<Rightarrow> attach_phone nm r phone ''Contact updated.'' st
           | None \<Rightarrow>
               (case Record_init (next_oid st) nm of
                  Inl e \<Rightarrow> (Inl e, alloc st)
                | Inr r \<Rightarrow>
                    attach_phone nm r phone ''Contact added.''
                      ((alloc st)\<lparr>book := add_record (book st) r\<rparr>)))
      | short \<Rightarrow> (Inl (ValueError ''Command 'add' requires both name and phone number.''), st))"

definition add_contact :: handler where
  "add_contact = input_error add_contact_body"

definition add_birthday_body :: handler where
  "add_birthday_body args st =
     (case args of
        nm # bd # other \<Rightarrow>
          (case find_record (book st) nm of
             None \<Rightarrow> (Inl (ValueError ''Contact not found.''), st)
           | Some r \<Rightarrow>
               (case Birthday_init (next_oid st) bd of
                  Inl e \<Rightarrow> (Inl e, alloc st)
                | Inr b \<Rightarrow>
                    (case Record_add_birthday r b of
                       Inl e \<Rightarrow> (Inl e, alloc st)
                     | Inr r' \<Rightarrow> (Inr (''Birthday added for '' @ nm @ ''.''),
                                  store_record nm r' (alloc st)))))
      | short \<Rightarrow> (Inl (unpack_error 2 (length short)), st))"

definition add_birthday :: handler where
  "add_birthday = input_error add_birthday_body"

text \<open>\<^verbatim>\<open>d.strftime('%d.%m.%Y')\<close>: two digits, two digits, and the year as the C library prints it.\<close>

definition pad2 :: "int \<Rightarrow> string" where
  "pad2 n = (if n < 10 then ''0'' else []) @ show_nat (nat n)"

definition strftime :: "date \<Rightarrow> string" where
  "strftime d = pad2 (day d) @ ''.'' @ pad2 (month d) @ ''.'' @ show_nat (nat (year d))"

definition show_birthday_body :: handler where
  "show_birthday_body args st =
     (case args of
        nm # other \<Rightarrow>
          (case find_record (book st) nm of
             None \<Rightarrow> (Inl (ValueError ''No birthday found for this contact.''), st)
           | Some r \<Rightarrow>
               (case birthday r of
                  None \<Rightarrow> (Inl (ValueError ''No birthday found for this contact.''), st)
                | Some b \<Rightarrow> (Inr (nm @ '''s birthday is '' @ strftime (date b)), st)))
      | [] \<Rightarrow> (Inl (unpack_error 1 0), st))"

definition show_birthday :: handler where
  "show_birthday = input_error show_birthday_body"

definition birthdays_body :: "date \<Rightarrow> handler" where
  "birthdays_body today args st =
     (case get_upcoming_birthdays (book st) 7 today of
        Inl e \<Rightarrow> (Inl e, st)
      | Inr upcoming \<Rightarrow>
          if upcoming = [] then (Inr ''No upcoming birthdays.'', st)
          else (Inr (join [CHR 0x0A] upcoming), st))"

definition birthdays :: "date \<Rightarrow> handler" where
  "birthdays today = input_error (birthdays_body today)"

section \<open>The command loop\<close>

text \<open>
  One pass of the loop body of \<^verbatim>\<open>main\<close> on one line of input: the lines it prints
  with \<^verbatim>\<open>print\<close> (the prompt of \<^verbatim>\<open>input\<close> is not among them), how control leaves it,
  and the state.
\<close>

datatype control = Continue | Break | Raise error

definition print_result :: "(error + string) \<times> state \<Rightarrow> string list \<times> control \<times> state" where
  "print_result res =
     (case res of
        (Inr s, st) \<Rightarrow> ([s], Continue, st)
      | (Inl e, st) \<Rightarrow> ([], Raise e, st))"

text \<open>The \<^verbatim>\<open>try\<close> block of the \<^verbatim>\<open>change\<close> branch: the error raised, if any, and the record as left.\<close>

definition change_try :: "Record \<Rightarrow> string \<Rightarrow> string \<Rightarrow> nat \<Rightarrow> error option \<times> Record" where
  "change_try r old_phone new_phone i =
     (case Phone_init i old_phone of
        Inl e \<Rightarrow> (Some e, r)
      | Inr p \<Rightarrow>
          (case remove_phone r p of
             Inl e \<Rightarrow> (Some e, r)
           | Inr r1 \<Rightarrow>
               (case Phone_init (Suc i) new_phone of
                  Inl e \<Rightarrow> (Some e, r1)
                | Inr q \<Rightarrow>
                    (case add_phone r1 q of
                       Inl e \<Rightarrow> (Some e, r1)
                     | Inr r2 \<Rightarrow> (None, r2)))))"

definition change_command :: "string list \<Rightarrow> state \<Rightarrow> string list \<times> control \<times> state" where
  "change_command args st =
     (case args of
        nm # old_phone # new_phone # other \<Rightarrow>
          (case find_record (book st) nm of
             None \<Rightarrow> ([''Contact not found.''], Continue, st)
           | Some r \<Rightarrow>
               (case change_try r old_phone new_phone (next_oid st) of
                  (None, r') \<Rightarrow> ([''Phone updated.''], Continue, store_record nm r' (alloc (alloc st)))
                | (Some (ValueError m), r') \<Rightarrow>
                    ([''Phone not found.''], Continue, store_record nm r' (alloc (alloc st)))
                | (Some e, r') \<Rightarrow> ([], Raise e, store_record nm r' (alloc (alloc st)))))
      | short \<Rightarrow> ([], Raise (unpack_error 3 (length short)), st))"

definition phones_text :: "Record \<Rightarrow> string" where
  "phones_text r = join '', '' (map fvalue (phones r))"

definition phone_command :: "string list \<Rightarrow> state \<Rightarrow> string list \<times> control \<times> state" where
  "phone_command args st =
     (case args of
        nm # other \<Rightarrow>
          (case find_record (book st) nm of
             None \<Rightarrow> ([''Contact not found.''], Continue, st)
           | Some r \<Rightarrow> ([nm @ '''s phones: '' @ phones_text r], Continue, st))
      | [] \<Rightarrow> ([], Raise (unpack_error 1 0), st))"

definition all_lines :: "state \<Rightarrow> string list" where
  "all_lines st = map (\<lambda>r. fvalue (name r) @ '': '' @ phones_text r) (map snd (records (book st)))"

definition loop_body :: "date \<Rightarrow> string \<Rightarrow> state \<Rightarrow> string list \<times> control \<times> state" where
  "loop_body today user_input st =
     (case split_ws user_input of
        [] \<Rightarrow> ([], Raise (unpack_error 1 0), st)
      | command # args \<Rightarrow>
          if command = ''close'' \<or> command = ''exit'' then ([''Good bye!''], Break, st)
          else if command = ''hello'' then ([''How can I help you?''], Continue, st)
          else if command = ''add'' then print_result (add_contact args st)
          else if command = ''change'' then change_command args st
          else if command = ''phone'' then phone_command args st
          else if command = ''all'' then (all_lines st, Continue, st)
          else if command = ''add-birthday'' then print_result (add_birthday args st)
          else if command = ''show-birthday'' then print_result (show_birthday args st)
          else if command = ''birthdays'' then print_result (birthdays today args st)
          else ([''Invalid command.''], Continue, st))"

text \<open>
  How a run of \<^verbatim>\<open>main\<close> ends: by \<^verbatim>\<open>break\<close>, or by an exception that nothing catches,
  which ends the process. \<^verbatim>\<open>input\<close> raises \<^verbatim>\<open>EOFError\<close> when the input has no more
  lines.
\<close>

datatype ending = Exited | Uncaught error

fun main_loop :: "date \<Rightarrow> string list \<Rightarrow> state \<Rightarrow> string list \<times> ending \<times> state" where
  "main_loop today [] st = ([], Uncaught EOFError, st)"
| "main_loop today (user_input # rest) st =
     (case loop_body today user_input st of
        (out, Continue, st') \<Rightarrow>
          (case main_loop today rest st' of (out', e, st'') \<Rightarrow> (out @ out', e, st''))
      | (out, Break, st') \<Rightarrow> (out, Exited, st')
      | (out, Raise err, st') \<Rightarrow> (out, Uncaught err, st'))"

definition main :: "date \<Rightarrow> string list \<Rightarrow> string list \<times> ending \<times> state" where
  "main today lines =
     (case main_loop today lines \<lparr>book = AddressBook_init, next_oid = 0\<rparr> of
        (out, e, st) \<Rightarrow> (''Welcome to the assistant bot!'' # out, e, st))"

section \<open>Well-formed books\<close>

text \<open>
  What the data model asks of a directory: the keys are those of a \<^verbatim>\<open>dict\<close>, so no key
  occurs twice, and every record is stored under the value of its own name.
\<close>

definition book_inv :: "AddressBook \<Rightarrow> bool" where
  "book_inv b =
     (distinct (map fst (records b)) \<and> list_all (\<lambda>(k, r). k = fvalue (name r)) (records b))"

section \<open>The birthday window of the specification\<close>

text \<open>
  The upcoming birthdays as the specification words them: the names of the records for
  which \<^verbatim>\<open>days_to_birthday\<close> gives a number of days that is at least 0 and less than
  \<open>days\<close>, in the order of the book.
\<close>

definition in_window :: "int \<Rightarrow> date \<Rightarrow> Record \<Rightarrow> bool" where
  "in_window days today r =
     (case days_to_birthday r today of Inr (Some n) \<Rightarrow> 0 \<le> n \<and> n < days | _ \<Rightarrow> False)"

definition upcoming_names :: "AddressBook \<Rightarrow> int \<Rightarrow> date \<Rightarrow> string list" where
  "upcoming_names b days today =
     map (\<lambda>r. fvalue (name r)) (filter (in_window days today) (map snd (records b)))"

section \<open>The birthday text of the specification\<close>

text \<open>
  The format as the specification words it, with what the library accepts: a day from
  1 to 31 written with one or two digits, or with a space before one digit; a month
  from 1 to 12 written with one or two digits; a year of four digits.
\<close>

definition day_text :: "string \<Rightarrow> bool" where
  "day_text ds =
     ((case ds of
         [a] \<Rightarrow> is_decimal_char a
       | [a, b] \<Rightarrow> (is_decimal_char a \<or> a = CHR '' '') \<and> is_decimal_char b
       | _ \<Rightarrow> False) \<and>
      1 \<le> py_int ds \<and> py_int ds \<le> 31)"

definition month_text :: "string \<Rightarrow> bool" where
  "month_text ms =
     ((case ms of
         [a] \<Rightarrow> is_decimal_char a
       | [a, b] \<Rightarrow> is_decimal_char a \<and> is_decimal_char b
       | _ \<Rightarrow> False) \<and>
      1 \<le> py_int ms \<and> py_int ms \<le> 12)"

definition year_text :: "string \<Rightarrow> bool" where
  "year_text ys = (length ys = 4 \<and> list_all is_decimal_char ys)"

section \<open>Construction of names and phones\<close>

text \<open>
  C9, as the code has it. \<^verbatim>\<open>Name(s)\<close> succeeds exactly when \<open>s\<close> is not empty and all
  its characters are alphabetic. \<^verbatim>\<open>Phone(s)\<close> succeeds exactly when \<open>s\<close> has ten
  characters, each of them a digit for \<^verbatim>\<open>str.isdigit\<close>: a decimal digit or one of the
  superscript digits. In every other case the constructor raises a \<^verbatim>\<open>ValueError\<close> and
  there is no instance.
\<close>

theorem Name_Phone_init_iff:
  "Name_init i s =
     (if s \<noteq> [] \<and> list_all is_alpha_char s then Inr \<lparr>cls = NameC, oid = i, fvalue = s\<rparr>
      else Inl (ValueError ''Name must contain only alphabetic characters.'')) \<and>
   Phone_init i s =
     (if length s = 10 \<and> list_all is_digit_char s then Inr \<lparr>cls = PhoneC, oid = i, fvalue = s\<rparr>
      else Inl (ValueError ''Phone number must be 10 digits long.''))"
  by (auto simp: Name_init_def Phone_init_def isalpha_def isdigit_def Field_init_def set_value_def)

text \<open>The examples of the specification, through the theorem.\<close>

theorem Name_Phone_init_iff_witness:
  "Name_init 0 ''John'' = Inr \<lparr>cls = NameC, oid = 0, fvalue = ''John''\<rparr> \<and>
   Name_init 0 ''John3'' = Inl (ValueError ''Name must contain only alphabetic characters.'') \<and>
   Name_init 0 [] = Inl (ValueError ''Name must contain only alphabetic characters.'') \<and>
   Phone_init 0 ''1234567890'' = Inr \<lparr>cls = PhoneC, oid = 0, fvalue = ''1234567890''\<rparr> \<and>
   Phone_init 0 ''12345'' = Inl (ValueError ''Phone number must be 10 digits long.'') \<and>
   Phone_init 0 ''12345abcde'' = Inl (ValueError ''Phone number must be 10 digits long.'')"
  using Name_Phone_init_iff [of 0 "''John''"] Name_Phone_init_iff [of 0 "''John3''"]
    Name_Phone_init_iff [of 0 "[]"] Name_Phone_init_iff [of 0 "''1234567890''"]
    Name_Phone_init_iff [of 0 "''12345''"] Name_Phone_init_iff [of 0 "''12345abcde''"]
  by (simp add: is_alpha_char_def is_digit_char_def is_decimal_char_def code_def)

text \<open>
  C9 as stated fails: ten times the superscript two (U+00B2) is accepted as a phone,
  and that character is not a decimal digit.
\<close>

theorem Phone_init_superscript_counterexample:
  "Phone_init 0 [CHR 0xB2, CHR 0xB2, CHR 0xB2, CHR 0xB2, CHR 0xB2,
                 CHR 0xB2, CHR 0xB2, CHR 0xB2, CHR 0xB2, CHR 0xB2]
     = Inr \<lparr>cls = PhoneC, oid = 0,
            fvalue = [CHR 0xB2, CHR 0xB2, CHR 0xB2, CHR 0xB2, CHR 0xB2,
                      CHR 0xB2, CHR 0xB2, CHR 0xB2, CHR 0xB2, CHR 0xB2]\<rparr> \<and>
   \<not> is_decimal_char (CHR 0xB2)"
  by (simp add: Phone_init_def isdigit_def is_digit_char_def is_decimal_char_def code_def
      Field_init_def set_value_def)

section \<open>Fields after construction\<close>

text \<open>
  C3, as the code has it. The value a constructor stores satisfies the predicate of its
  kind: a name is alphabetic, a phone is ten digits, the text of a birthday parses to
  its date. The setter of \<^verbatim>\<open>value\<close> is part of every field and stores whatever it is
  given, unchecked.
\<close>

theorem Field_valid_after_init:
  "(Name_init i s = Inr f \<longrightarrow> isalpha (fvalue f)) \<and>
   (Phone_init j t = Inr p \<longrightarrow> isdigit (fvalue p) \<and> length (fvalue p) = 10) \<and>
   (Birthday_init k u = Inr b \<longrightarrow> strptime (fvalue b) = Inr (date b)) \<and>
   fvalue (set_value g v) = v"
  by (auto simp: Name_init_def Phone_init_def Birthday_init_def Field_init_def set_value_def
      split: if_splits sum.splits error.splits)

theorem Field_valid_after_init_witness:
  "Name_init 0 ''John'' = Inr \<lparr>cls = NameC, oid = 0, fvalue = ''John''\<rparr> \<and> isalpha ''John'' \<and>
   Phone_init 1 ''1234567890'' = Inr \<lparr>cls = PhoneC, oid = 1, fvalue = ''1234567890''\<rparr> \<and>
   isdigit ''1234567890'' \<and>
   Birthday_init 2 ''01.01.1990''
     = Inr \<lparr>cls = BirthdayC, oid = 2, fvalue = ''01.01.1990'',
            date = \<lparr>year = 1990, month = 1, day = 1\<rparr>\<rparr> \<and>
   strptime ''01.01.1990'' = Inr \<lparr>year = 1990, month = 1, day = 1\<rparr> \<and>
   fvalue (set_value \<lparr>cls = NameC, oid = 0, fvalue = ''John''\<rparr> ''John3'') = ''John3''"
proof -
  have n: "Name_init 0 ''John'' = Inr \<lparr>cls = NameC, oid = 0, fvalue = ''John''\<rparr>"
    by code_simp
  have p: "Phone_init 1 ''1234567890'' = Inr \<lparr>cls = PhoneC, oid = 1, fvalue = ''1234567890''\<rparr>"
    by code_simp
  have b: "Birthday_init 2 ''01.01.1990''
     = Inr \<lparr>cls = BirthdayC, oid = 2, fvalue = ''01.01.1990'',
            date = \<lparr>year = 1990, month = 1, day = 1\<rparr>\<rparr>"
    by code_simp
  from Field_valid_after_init [of 0 "''John''" "\<lparr>cls = NameC, oid = 0, fvalue = ''John''\<rparr>"
        1 "''1234567890''" "\<lparr>cls = PhoneC, oid = 1, fvalue = ''1234567890''\<rparr>"
        2 "''01.01.1990''"
        "\<lparr>cls = BirthdayC, oid = 2, fvalue = ''01.01.1990'',
          date = \<lparr>year = 1990, month = 1, day = 1\<rparr>\<rparr>"
        "\<lparr>cls = NameC, oid = 0, fvalue = ''John''\<rparr>" "''John3''"]
  have "isalpha ''John'' \<and> isdigit ''1234567890'' \<and>
        strptime ''01.01.1990'' = Inr \<lparr>year = 1990, month = 1, day = 1\<rparr> \<and>
        fvalue (set_value \<lparr>cls = NameC, oid = 0, fvalue = ''John''\<rparr> ''John3'') = ''John3''"
    unfolding n p b by simp
  then show ?thesis using n p b by simp
qed

text \<open>
  C3 as stated fails: the name built from \<^verbatim>\<open>John\<close> takes the value \<^verbatim>\<open>John3\<close> through
  the setter, and then holds a value that is not alphabetic.
\<close>

theorem Name_setter_counterexample:
  "Name_init 0 ''John'' = Inr \<lparr>cls = NameC, oid = 0, fvalue = ''John''\<rparr> \<and>
   set_value \<lparr>cls = NameC, oid = 0, fvalue = ''John''\<rparr> ''John3''
     = \<lparr>cls = NameC, oid = 0, fvalue = ''John3''\<rparr> \<and>
   \<not> isalpha ''John3''"
  by (simp add: Name_init_def isalpha_def is_alpha_char_def code_def Field_init_def set_value_def)

section \<open>Removing and replacing a phone\<close>

text \<open>
  C1 at the input where the code departs from it: the record holds one phone with the
  value \<^verbatim>\<open>1234567890\<close>, and \<^verbatim>\<open>remove_phone\<close> is given another \<^verbatim>\<open>Phone\<close> object with
  the same value. The entry is not removed; the call raises.
\<close>

theorem remove_phone_equal_value_raises:
  "remove_phone \<lparr>name = \<lparr>cls = NameC, oid = 0, fvalue = ''John''\<rparr>,
                  phones = [\<lparr>cls = PhoneC, oid = 1, fvalue = ''1234567890''\<rparr>], birthday = None\<rparr>
                \<lparr>cls = PhoneC, oid = 2, fvalue = ''1234567890''\<rparr>
     = Inl (ValueError ''list.remove(x): x not in list'')"
  by (simp add: remove_phone_def py_eq_def)

text \<open>
  C2, as the code has it by design. In a record whose phones are \<open>a\<close> and \<open>b\<close> in this
  order, removing \<open>a\<close> and adding a phone \<open>q\<close> leaves \<open>b\<close> and \<open>q\<close> in this order: the
  new phone goes to the end of the sequence, not to the place of the removed one.
\<close>

theorem replace_phone_appends:
  assumes "phones r = [a, b]" and "cls q = PhoneC"
  shows "remove_phone r a = Inr (r\<lparr>phones := [b]\<rparr>) \<and>
         add_phone (r\<lparr>phones := [b]\<rparr>) q = Inr (r\<lparr>phones := [b, q]\<rparr>)"
  using assms by (simp add: remove_phone_def add_phone_def py_eq_def)

theorem replace_phone_appends_witness:
  "remove_phone \<lparr>name = \<lparr>cls = NameC, oid = 0, fvalue = ''John''\<rparr>,
                  phones = [\<lparr>cls = PhoneC, oid = 1, fvalue = ''1234567890''\<rparr>,
                            \<lparr>cls = PhoneC, oid = 2, fvalue = ''0987654321''\<rparr>], birthday = None\<rparr>
                \<lparr>cls = PhoneC, oid = 1, fvalue = ''1234567890''\<rparr>
     = Inr \<lparr>name = \<lparr>cls = NameC, oid = 0, fvalue = ''John''\<rparr>,
            phones = [\<lparr>cls = PhoneC, oid = 2, fvalue = ''0987654321''\<rparr>], birthday = None\<rparr> \<and>
   add_phone \<lparr>name = \<lparr>cls = NameC, oid = 0, fvalue = ''John''\<rparr>,
               phones = [\<lparr>cls = PhoneC, oid = 2, fvalue = ''0987654321''\<rparr>], birthday = None\<rparr>
             \<lparr>cls = PhoneC, oid = 3, fvalue = ''1112223333''\<rparr>
     = Inr \<lparr>name = \<lparr>cls = NameC, oid = 0, fvalue = ''John''\<rparr>,
            phones = [\<lparr>cls = PhoneC, oid = 2, fvalue = ''0987654321''\<rparr>,
                      \<lparr>cls = PhoneC, oid = 3, fvalue = ''1112223333''\<rparr>], birthday = None\<rparr>"
  using replace_phone_appends [of
      "\<lparr>name = \<lparr>cls = NameC, oid = 0, fvalue = ''John''\<rparr>,
        phones = [\<lparr>cls = PhoneC, oid = 1, fvalue = ''1234567890''\<rparr>,
                  \<lparr>cls = PhoneC, oid = 2, fvalue = ''0987654321''\<rparr>], birthday = None\<rparr>"
      "\<lparr>cls = PhoneC, oid = 1, fvalue = ''1234567890''\<rparr>"
      "\<lparr>cls = PhoneC, oid = 2, fvalue = ''0987654321''\<rparr>"
      "\<lparr>cls = PhoneC, oid = 3, fvalue = ''1112223333''\<rparr>"]
  by simp

text \<open>
  C2 as stated fails: after the two \<^verbatim>\<open>add\<close> commands of the scenario, the \<^verbatim>\<open>change\<close>
  command prints that the phone is not found, and the phones of John are not
  \<^verbatim>\<open>1112223333, 0987654321\<close>.
\<close>

theorem change_scenario_counterexample:
  "(case main \<lparr>year = 2024, month = 1, day = 1\<rparr>
           [''add John 1234567890'', ''add John 0987654321'',
            ''change John 1234567890 1112223333''] of
      (out, e, st) \<Rightarrow>
        out = [''Welcome to the assistant bot!'', ''Contact added.'', ''Contact updated.'',
               ''Phone not found.''] \<and>
        map_option (\<lambda>r. map fvalue (phones r)) (find_record (book st) ''John'')
          = Some [''1234567890'', ''0987654321''])"
  by code_simp

section \<open>Adding records\<close>

lemma dict_set_keys:
  "map fst (dict_set k v kvs) = (if k \<in> fst ` set kvs then map fst kvs else map fst kvs @ [k])"
  by (induction kvs) (fastforce simp: image_iff)+

lemma map_of_dict_set: "map_of (dict_set k v kvs) = (map_of kvs)(k \<mapsto> v)"
  by (induction kvs) auto

lemma set_dict_set: "set (dict_set k v kvs) \<subseteq> insert (k, v) (set kvs)"
  by (induction kvs) (auto split: if_splits)

lemma dict_set_present: "k \<in> fst ` set kvs \<Longrightarrow> length (dict_set k v kvs) = length kvs"
  by (induction kvs) (fastforce simp: image_iff)+

lemma dict_set_mem: "k \<in> fst ` set (dict_set k v kvs)"
  using dict_set_keys [of k v kvs] by (metis (no_types) list.set_map in_set_conv_decomp)

lemma book_inv_add_record: "book_inv b \<Longrightarrow> book_inv (add_record b r)"
  using set_dict_set [of "fvalue (name r)" r "records b"]
  by (auto simp: book_inv_def add_record_def dict_set_keys list_all_iff)

lemma distinct_filter_key:
  "distinct (map fst kvs) \<Longrightarrow> k \<in> fst ` set kvs \<Longrightarrow> length (filter (\<lambda>(k', v). k' = k) kvs) = 1"
proof (induction kvs)
  case Nil
  then show ?case by simp
next
  case (Cons a kvs)
  then show ?case by (cases a) (auto simp: filter_empty_conv image_iff)
qed

text \<open>
  C8. In a well-formed book, \<^verbatim>\<open>add_record\<close> of \<open>r1\<close> and then of \<open>r2\<close>, two records
  whose names have the same value, leaves one entry under that name; the entry is
  \<open>r2\<close> as it was given; the second call adds no entry; every entry is still stored
  under the value of its record's name; and the entries under other names are those
  of the book before the two calls.
\<close>

theorem add_record_twice:
  assumes "book_inv b" and "fvalue (name r1) = fvalue (name r2)"
  shows "find_record (add_record (add_record b r1) r2) (fvalue (name r2)) = Some r2 \<and>
         length (filter (\<lambda>(k, r). k = fvalue (name r2))
                   (records (add_record (add_record b r1) r2))) = 1 \<and>
         length (records (add_record (add_record b r1) r2)) = length (records (add_record b r1)) \<and>
         book_inv (add_record (add_record b r1) r2) \<and>
         (\<forall>k. k \<noteq> fvalue (name r2) \<longrightarrow>
            find_record (add_record (add_record b r1) r2) k = find_record b k)"
proof -
  let ?b1 = "add_record b r1" and ?b2 = "add_record (add_record b r1) r2"
  have inv2: "book_inv ?b2"
    using assms(1) by (simp add: book_inv_add_record)
  have found: "find_record ?b2 (fvalue (name r2)) = Some r2"
    by (simp add: find_record_def add_record_def map_of_dict_set)
  have mem: "fvalue (name r2) \<in> fst ` set (records ?b2)"
    by (simp add: add_record_def dict_set_mem)
  have one: "length (filter (\<lambda>(k, r). k = fvalue (name r2)) (records ?b2)) = 1"
    using inv2 mem by (simp add: book_inv_def distinct_filter_key)
  have "fvalue (name r2) \<in> fst ` set (records ?b1)"
    using assms(2) dict_set_mem [of "fvalue (name r1)" r1 "records b"]
    by (simp add: add_record_def)
  then have len: "length (records ?b2) = length (records ?b1)"
    by (simp add: add_record_def dict_set_present)
  have frame: "\<forall>k. k \<noteq> fvalue (name r2) \<longrightarrow> find_record ?b2 k = find_record b k"
    using assms(2) by (simp add: find_record_def add_record_def map_of_dict_set)
  show ?thesis
    using inv2 found one len frame by simp
qed

text \<open>
  On a book that holds Ann, with two records named John: Ann's entry stays, and there
  is one entry for John, the second record.
\<close>

theorem add_record_twice_witness:
  "book_inv \<lparr>records = [(''Ann'', \<lparr>name = \<lparr>cls = NameC, oid = 3, fvalue = ''Ann''\<rparr>, phones = [],
                                     birthday = None\<rparr>)]\<rparr> \<and>
   records (add_record (add_record
       \<lparr>records = [(''Ann'', \<lparr>name = \<lparr>cls = NameC, oid = 3, fvalue = ''Ann''\<rparr>, phones = [],
                              birthday = None\<rparr>)]\<rparr>
       \<lparr>name = \<lparr>cls = NameC, oid = 0, fvalue = ''John''\<rparr>,
         phones = [\<lparr>cls = PhoneC, oid = 1, fvalue = ''1234567890''\<rparr>], birthday = None\<rparr>)
       \<lparr>name = \<lparr>cls = NameC, oid = 2, fvalue = ''John''\<rparr>, phones = [], birthday = None\<rparr>)
     = [(''Ann'', \<lparr>name = \<lparr>cls = NameC, oid = 3, fvalue = ''Ann''\<rparr>, phones = [],
                   birthday = None\<rparr>),
        (''John'', \<lparr>name = \<lparr>cls = NameC, oid = 2, fvalue = ''John''\<rparr>, phones = [],
                    birthday = None\<rparr>)] \<and>
   find_record (add_record (add_record
       \<lparr>records = [(''Ann'', \<lparr>name = \<lparr>cls = NameC, oid = 3, fvalue = ''Ann''\<rparr>, phones = [],
                              birthday = None\<rparr>)]\<rparr>
       \<lparr>name = \<lparr>cls = NameC, oid = 0, fvalue = ''John''\<rparr>,
         phones = [\<lparr>cls = PhoneC, oid = 1, fvalue = ''1234567890''\<rparr>], birthday = None\<rparr>)
       \<lparr>name = \<lparr>cls = NameC, oid = 2, fvalue = ''John''\<rparr>, phones = [], birthday = None\<rparr>) ''Ann''
     = Some \<lparr>name = \<lparr>cls = NameC, oid = 3, fvalue = ''Ann''\<rparr>, phones = [], birthday = None\<rparr>"
proof -
  let ?b = "\<lparr>records = [(''Ann'', \<lparr>name = \<lparr>cls = NameC, oid = 3, fvalue = ''Ann''\<rparr>, phones = [],
                              birthday = None\<rparr>)]\<rparr>"
  have inv: "book_inv ?b"
    by (simp add: book_inv_def)
  show ?thesis
    using inv add_record_twice [OF inv, of
        "\<lparr>name = \<lparr>cls = NameC, oid = 0, fvalue = ''John''\<rparr>,
          phones = [\<lparr>cls = PhoneC, oid = 1, fvalue = ''1234567890''\<rparr>], birthday = None\<rparr>"
        "\<lparr>name = \<lparr>cls = NameC, oid = 2, fvalue = ''John''\<rparr>, phones = [], birthday = None\<rparr>"]
    by (simp add: add_record_def find_record_def)
qed

section \<open>Errors in the command loop\<close>

text \<open>
  C5 at inputs where the code departs from it: an empty line, \<^verbatim>\<open>phone\<close> without a name
  and \<^verbatim>\<open>change\<close> with one argument each end the run with a \<^verbatim>\<open>ValueError\<close> that nothing
  catches, and the line after them is not read.
\<close>

theorem main_short_line_uncaught:
  "fst (snd (main today [''hello'', [], ''hello''])) = Uncaught (unpack_error 1 0) \<and>
   fst (snd (main today [''phone'', ''hello''])) = Uncaught (unpack_error 1 0) \<and>
   fst (snd (main today [''change John'', ''hello''])) = Uncaught (unpack_error 3 1)"
  by (simp add: main_def loop_body_def split_ws_def is_space_char_def code_def
      phone_command_def change_command_def)

section \<open>Days to the next birthday\<close>

lemma month_cases:
  "1 \<le> (m::int) \<Longrightarrow> m \<le> 12 \<Longrightarrow>
   m = 1 \<or> m = 2 \<or> m = 3 \<or> m = 4 \<or> m = 5 \<or> m = 6 \<or> m = 7 \<or> m = 8 \<or> m = 9 \<or> m = 10 \<or> m = 11 \<or> m = 12"
  by arith

lemma days_before_next_month:
  assumes "1 \<le> m" "m < 12"
  shows "days_before_month y (m + 1) = days_before_month y m + days_in_month y m"
  using month_cases [of m] assms
  by (auto simp: days_before_month_def days_in_month_def)

lemma days_in_month_pos: "0 < days_in_month y m"
  by (simp add: days_in_month_def)

lemma days_before_month_mono:
  assumes "1 \<le> m1" "m1 < m2" "m2 \<le> 12"
  shows "days_before_month y m1 + days_in_month y m1 \<le> days_before_month y m2"
proof -
  have "nat (m2 - m1) > 0" using assms by simp
  define k where "k = nat (m2 - m1 - 1)"
  have m2: "m2 = m1 + 1 + int k" using assms by (simp add: k_def)
  have "m1 + 1 + int k \<le> 12 \<Longrightarrow> days_before_month y m1 + days_in_month y m1 \<le> days_before_month y (m1 + 1 + int k)"
  proof (induction k)
    case 0
    then show ?case using assms days_before_next_month [of m1 y] by simp
  next
    case (Suc k)
    have "days_before_month y (m1 + 1 + int k + 1) = days_before_month y (m1 + 1 + int k) + days_in_month y (m1 + 1 + int k)"
      using Suc.prems assms by (intro days_before_next_month) auto
    moreover have "0 < days_in_month y (m1 + 1 + int k)" by (rule days_in_month_pos)
    ultimately show ?case using Suc by (simp add: add.assoc add.commute)
  qed
  then show ?thesis using m2 assms by simp
qed

lemma div_pred:
  fixes y k :: int
  assumes "0 < k"
  shows "(y - 1) div k = (if y mod k = 0 then y div k - 1 else y div k)"
proof (cases "y mod k = 0")
  case True
  have "y - 1 = k * (y div k - 1) + (k - 1)"
    using True mult_div_mod_eq [of k y] by (simp add: algebra_simps)
  then have "(y - 1) div k = y div k - 1"
    using assms by (intro int_div_pos_eq [where r = "k - 1"]) auto
  then show ?thesis using True by simp
next
  case False
  have pos: "0 \<le> y mod k - 1" using False assms pos_mod_sign [of k y] by linarith
  have lt: "y mod k - 1 < k" using assms pos_mod_bound [of k y] by linarith
  have "y - 1 = k * (y div k) + (y mod k - 1)"
    using mult_div_mod_eq [of k y] by (simp add: algebra_simps)
  then have "(y - 1) div k = y div k"
    using pos lt by (intro int_div_pos_eq [where r = "y mod k - 1"]) auto
  then show ?thesis using False by simp
qed

lemma mod_4_100: "(y::int) mod 100 = 0 \<Longrightarrow> y mod 4 = 0"
  using mod_mod_cancel [of 4 100 y] by simp

lemma mod_100_400: "(y::int) mod 400 = 0 \<Longrightarrow> y mod 100 = 0"
  using mod_mod_cancel [of 100 400 y] by simp

lemma days_before_year_next:
  "days_before_year (y + 1) = days_before_year y + (if is_leap y then 366 else 365)"
  using div_pred [of 4 y] div_pred [of 100 y] div_pred [of 400 y] mod_4_100 [of y] mod_100_400 [of y]
  by (simp add: days_before_year_def is_leap_def split: if_splits)

lemma year_length:
  assumes "valid_date d"
  shows "days_before_month (year d) (month d) + day d \<le> (if is_leap (year d) then 366 else 365)"
proof -
  have m: "1 \<le> month d" "month d \<le> 12" and d: "day d \<le> days_in_month (year d) (month d)"
    using assms by (simp_all add: valid_date_def)
  have "days_before_month (year d) (month d) + days_in_month (year d) (month d)
          \<le> (if is_leap (year d) then 366 else 365)"
    using month_cases [OF m] by (elim disjE) (simp_all add: days_before_month_def days_in_month_def)
  then show ?thesis using d by (simp split: if_splits)
qed

lemma toordinal_same_year:
  assumes "valid_date a" "valid_date b" "year a = year b" "\<not> date_lt a b"
  shows "toordinal b \<le> toordinal a"
proof (cases "month a = month b")
  case True
  then show ?thesis using assms by (simp add: toordinal_def date_lt_def)
next
  case False
  then have lt: "month b < month a" using assms by (auto simp: date_lt_def)
  have "days_before_month (year b) (month b) + days_in_month (year b) (month b) \<le> days_before_month (year b) (month a)"
    using lt assms by (intro days_before_month_mono) (auto simp: valid_date_def)
  then show ?thesis using assms by (simp add: toordinal_def valid_date_def)
qed

lemma toordinal_next_year:
  assumes "valid_date a" "valid_date b" "year a = year b + 1"
  shows "toordinal b < toordinal a"
proof -
  have "0 \<le> days_before_month (year a) (month a)"
    by (simp add: days_before_month_def)
  moreover have "1 \<le> day a" using assms by (simp add: valid_date_def)
  ultimately show ?thesis
    using year_length [OF assms(2)] assms(3) days_before_year_next [of "year b"]
    by (simp add: toordinal_def split: if_splits)
qed


lemma replace_year_ok:
  assumes "valid_date d" "\<not> (month d = 2 \<and> day d = 29)" "1 \<le> y" "y \<le> 9999"
  shows "replace_year d y = Inr \<lparr>year = y, month = month d, day = day d\<rparr>"
proof -
  have "day d \<le> days_in_month y (month d)"
    using assms(1,2) by (simp add: valid_date_def days_in_month_def split: if_splits)
  then show ?thesis
    using assms by (simp add: replace_year_def date_new_def valid_date_def)
qed

lemma replace_year_valid:
  assumes "replace_year d y = Inr d'"
  shows "valid_date d' \<and> d' = \<lparr>year = y, month = month d, day = day d\<rparr>"
  using assms by (auto simp: replace_year_def date_new_def valid_date_def split: if_splits)

lemma replace_year_error: "replace_year d y = Inl e \<Longrightarrow> \<exists>m. e = ValueError m"
  by (auto simp: replace_year_def date_new_def year_out_of_range_def split: if_splits)

lemma next_birthday_error: "next_birthday d today = Inl e \<Longrightarrow> \<exists>m. e = ValueError m"
  by (auto simp: next_birthday_def split: sum.splits if_splits dest: replace_year_error)

lemma replace_leap_day:
  assumes "month d = 2" "day d = 29" "\<not> is_leap y"
  shows "\<exists>m. replace_year d y = Inl (ValueError m)"
  using assms by (simp add: replace_year_def date_new_def days_in_month_def year_out_of_range_def)


lemma next_birthday_ok:
  assumes "valid_date today" "year today < 9999" "valid_date d" "\<not> (month d = 2 \<and> day d = 29)"
  shows "next_birthday d today =
           Inr (if date_lt \<lparr>year = year today, month = month d, day = day d\<rparr> today
                then \<lparr>year = year today + 1, month = month d, day = day d\<rparr>
                else \<lparr>year = year today, month = month d, day = day d\<rparr>)"
proof -
  have y: "1 \<le> year today" "year today \<le> 9999" "1 \<le> year today + 1" "year today + 1 \<le> 9999"
    using assms(1,2) by (simp_all add: valid_date_def)
  have r1: "replace_year d (year today) = Inr \<lparr>year = year today, month = month d, day = day d\<rparr>"
    using assms(3,4) y(1,2) by (rule replace_year_ok)
  have v1: "valid_date \<lparr>year = year today, month = month d, day = day d\<rparr>"
    using replace_year_valid [OF r1] by simp
  have r2: "replace_year \<lparr>year = year today, month = month d, day = day d\<rparr> (year today + 1)
              = Inr \<lparr>year = year today + 1, month = month d, day = day d\<rparr>"
    using replace_year_ok [OF v1 _ y(3,4)] assms(4) by simp
  show ?thesis by (simp add: next_birthday_def r1 r2)
qed

lemma days_to_next_nonneg:
  assumes "valid_date today" "year today < 9999" "valid_date d" "\<not> (month d = 2 \<and> day d = 29)"
  shows "\<exists>nb. next_birthday d today = Inr nb \<and> 0 \<le> days_between nb today"
proof -
  let ?same = "\<lparr>year = year today, month = month d, day = day d\<rparr>"
  let ?next = "\<lparr>year = year today + 1, month = month d, day = day d\<rparr>"
  have y: "1 \<le> year today" "year today \<le> 9999" "1 \<le> year today + 1" "year today + 1 \<le> 9999"
    using assms(1,2) by (simp_all add: valid_date_def)
  have v1: "valid_date ?same"
    using replace_year_valid [OF replace_year_ok [OF assms(3,4) y(1,2)]] by simp
  have v2: "valid_date ?next"
    using replace_year_valid [OF replace_year_ok [OF assms(3,4) y(3,4)]] by simp
  show ?thesis
  proof (cases "date_lt ?same today")
    case True
    have "toordinal today < toordinal ?next"
      using v2 assms(1) by (rule toordinal_next_year) simp
    then show ?thesis
      using True next_birthday_ok [OF assms] by (simp add: days_between_def)
  next
    case False
    have "toordinal today \<le> toordinal ?same"
      using v1 assms(1) _ False by (rule toordinal_same_year) simp
    then show ?thesis
      using False next_birthday_ok [OF assms] by (simp add: days_between_def)
  qed
qed

lemma days_to_birthday_cases:
  assumes "valid_date today" and "year today < 9999"
    and "\<forall>b. birthday r = Some b \<longrightarrow> valid_date (date b) \<and> \<not> (month (date b) = 2 \<and> day (date b) = 29)"
  shows "case birthday r of
           None \<Rightarrow> days_to_birthday r today = Inr None
         | Some b \<Rightarrow>
             (\<exists>n. days_to_birthday r today = Inr (Some n) \<and> 0 \<le> n \<and>
                  (month today = month (date b) \<and> day today = day (date b) \<longrightarrow> n = 0) \<and>
                  (date_lt \<lparr>year = year today, month = month (date b), day = day (date b)\<rparr> today \<longrightarrow>
                     n = days_between \<lparr>year = year today + 1, month = month (date b), day = day (date b)\<rparr> today))"
proof (cases "birthday r")
  case None
  then show ?thesis by (simp add: days_to_birthday_def)
next
  case (Some b)
  let ?d = "date b"
  have vb: "valid_date ?d" and nl: "\<not> (month ?d = 2 \<and> day ?d = 29)"
    using assms(3) Some by simp_all
  note nb = next_birthday_ok [OF assms(1,2) vb nl]
  obtain x where x: "next_birthday ?d today = Inr x" "0 \<le> days_between x today"
    using days_to_next_nonneg [OF assms(1,2) vb nl] by blast
  have res: "days_to_birthday r today = Inr (Some (days_between x today))"
    using Some x(1) by (simp add: days_to_birthday_def)
  have same: "month today = month ?d \<and> day today = day ?d \<longrightarrow> days_between x today = 0"
  proof
    assume eq: "month today = month ?d \<and> day today = day ?d"
    then have "\<lparr>year = year today, month = month ?d, day = day ?d\<rparr> = today" by simp
    moreover have "\<not> date_lt today today" by (simp add: date_lt_def)
    ultimately have "x = today" using nb x(1) by simp
    then show "days_between x today = 0" by (simp add: days_between_def)
  qed
  have passed: "date_lt \<lparr>year = year today, month = month ?d, day = day ?d\<rparr> today \<longrightarrow>
      days_between x today = days_between \<lparr>year = year today + 1, month = month ?d, day = day ?d\<rparr> today"
    using nb x(1) by auto
  show ?thesis using Some res x(2) same passed by simp
qed

text \<open>
  The call raises no error, in particular, for a birthday that is not February 29 and
  a today before the year 9999: this is \<open>days_to_birthday_cases\<close>.
\<close>

lemma next_birthday_Inr:
  assumes "next_birthday d today = Inr nb"
  shows "valid_date nb \<and> month nb = month d \<and> day nb = day d \<and>
         (if date_lt \<lparr>year = year today, month = month d, day = day d\<rparr> today
          then year nb = year today + 1
          else year nb = year today \<and> \<not> date_lt nb today)"
proof -
  obtain nb0 where r0: "replace_year d (year today) = Inr nb0"
    using assms by (auto simp: next_birthday_def split: sum.splits)
  have nb0: "valid_date nb0" "nb0 = \<lparr>year = year today, month = month d, day = day d\<rparr>"
    using replace_year_valid [OF r0] by auto
  show ?thesis
  proof (cases "date_lt nb0 today")
    case True
    then have "replace_year nb0 (year today + 1) = Inr nb"
      using assms r0 by (simp add: next_birthday_def)
    from replace_year_valid [OF this] True nb0(2) show ?thesis by auto
  next
    case False
    then have "nb = nb0" using assms r0 by (simp add: next_birthday_def)
    then show ?thesis using False nb0 by auto
  qed
qed

lemma next_birthday_same_day:
  assumes "valid_date today" "month today = month d" "day today = day d"
  shows "next_birthday d today = Inr today"
proof -
  have "replace_year d (year today) = Inr today"
    using assms by (simp add: replace_year_def date_new_def valid_date_def)
  moreover have "\<not> date_lt today today" by (simp add: date_lt_def)
  ultimately show ?thesis by (simp add: next_birthday_def)
qed

text \<open>
  C6, as the code has it. For a record without a birthday, \<^verbatim>\<open>days_to_birthday\<close> returns
  \<^verbatim>\<open>None\<close>. For a record with a birthday, it returns 0 when today has the month and
  day of the birthday. Whenever the call raises no error (it raises when the month and
  day do not exist in the year they are put into, as February 29 in a year that is not
  a leap year, or when that year is past 9999), it returns a number of days that is not
  negative, and when the month and day in today's year are before today the number is
  that of the days from today to their occurrence in the next year.
\<close>

theorem days_to_birthday_next_occurrence:
  "(birthday r = None \<longrightarrow> days_to_birthday r today = Inr None) \<and>
   (\<forall>b. birthday r = Some b \<and> valid_date today \<longrightarrow>
      (month today = month (date b) \<and> day today = day (date b) \<longrightarrow>
         days_to_birthday r today = Inr (Some 0)) \<and>
      (\<not> isl (days_to_birthday r today) \<longrightarrow>
         (\<exists>n. days_to_birthday r today = Inr (Some n) \<and> 0 \<le> n \<and>
              (date_lt \<lparr>year = year today, month = month (date b), day = day (date b)\<rparr> today \<longrightarrow>
                 n = days_between \<lparr>year = year today + 1, month = month (date b), day = day (date b)\<rparr>
                       today))))"
proof (intro conjI allI impI)
  assume "birthday r = None"
  then show "days_to_birthday r today = Inr None"
    by (simp add: days_to_birthday_def)
next
  fix b
  assume a: "birthday r = Some b \<and> valid_date today"
    and same: "month today = month (date b) \<and> day today = day (date b)"
  show "days_to_birthday r today = Inr (Some 0)"
    using a same next_birthday_same_day [of today "date b"]
    by (simp add: days_to_birthday_def days_between_def)
next
  fix b
  assume a: "birthday r = Some b \<and> valid_date today"
    and ok: "\<not> isl (days_to_birthday r today)"
  let ?same = "\<lparr>year = year today, month = month (date b), day = day (date b)\<rparr>"
  let ?next = "\<lparr>year = year today + 1, month = month (date b), day = day (date b)\<rparr>"
  obtain nb where nb: "next_birthday (date b) today = Inr nb"
    using a ok by (auto simp: days_to_birthday_def split: sum.splits)
  have res: "days_to_birthday r today = Inr (Some (days_between nb today))"
    using a nb by (simp add: days_to_birthday_def)
  note facts = next_birthday_Inr [OF nb]
  have v: "valid_date nb" using facts by simp
  have nonneg: "0 \<le> days_between nb today"
  proof (cases "date_lt ?same today")
    case True
    then have "year nb = year today + 1" using facts by simp
    then have "toordinal today < toordinal nb"
      using v a by (intro toordinal_next_year) simp_all
    then show ?thesis by (simp add: days_between_def)
  next
    case False
    then have "year nb = year today" "\<not> date_lt nb today" using facts by simp_all
    then have "toordinal today \<le> toordinal nb"
      using v a by (intro toordinal_same_year) simp_all
    then show ?thesis by (simp add: days_between_def)
  qed
  have passed: "date_lt ?same today \<longrightarrow> days_between nb today = days_between ?next today"
  proof
    assume "date_lt ?same today"
    then have "year nb = year today + 1" using facts by simp
    then have "nb = ?next" using facts by simp
    then show "days_between nb today = days_between ?next today" by simp
  qed
  show "\<exists>n. days_to_birthday r today = Inr (Some n) \<and> 0 \<le> n \<and>
          (date_lt ?same today \<longrightarrow> n = days_between ?next today)"
    using res nonneg passed by simp
qed

section \<open>Upcoming birthdays\<close>

lemma upcoming_loop_spec:
  assumes "\<forall>r \<in> set rs. \<not> isl (days_to_birthday r today)"
  shows "upcoming_loop rs days today acc
           = Inr (acc @ map (\<lambda>r. fvalue (name r)) (filter (in_window days today) rs))"
  using assms
proof (induction rs arbitrary: acc)
  case Nil
  then show ?case by simp
next
  case (Cons r rs)
  have rest: "\<And>acc'. upcoming_loop rs days today acc'
           = Inr (acc' @ map (\<lambda>r. fvalue (name r)) (filter (in_window days today) rs))"
    using Cons by simp
  have ok: "\<not> isl (days_to_birthday r today)" using Cons.prems by simp
  show ?case
  proof (cases "birthday r")
    case None
    then have "\<not> in_window days today r"
      by (simp add: in_window_def days_to_birthday_def)
    then show ?thesis using None by (simp add: rest)
  next
    case (Some b)
    then obtain nb where nb: "next_birthday (date b) today = Inr nb"
      using ok by (auto simp: days_to_birthday_def split: sum.splits)
    have "in_window days today r = (0 \<le> days_between nb today \<and> days_between nb today < days)"
      using Some nb by (simp add: in_window_def days_to_birthday_def)
    then show ?thesis using Some nb by (simp add: rest)
  qed
qed

text \<open>
  C7, as the code has it. When the next occurrence can be computed for every record of
  the book (\<^verbatim>\<open>days_to_birthday\<close> raises for none of them), \<^verbatim>\<open>get_upcoming_birthdays\<close>
  returns the names of exactly the records whose birthday is at least 0 and less than
  \<open>days\<close> days away, in the order of the book.
\<close>

theorem get_upcoming_birthdays_window:
  assumes "\<forall>r \<in> set (map snd (records b)). \<not> isl (days_to_birthday r today)"
  shows "get_upcoming_birthdays b days today = Inr (upcoming_names b days today)"
  using upcoming_loop_spec [OF assms, of days "[]"]
  by (simp add: get_upcoming_birthdays_def upcoming_names_def)

lemma upcoming_loop_leap_day:
  assumes "r \<in> set rs" "birthday r = Some b" "month (date b) = 2" "day (date b) = 29"
    "\<not> is_leap (year today)"
  shows "\<exists>m. upcoming_loop rs days today acc = Inl (ValueError m)"
  using assms(1)
proof (induction rs arbitrary: acc)
  case Nil
  then show ?case by simp
next
  case (Cons x rs)
  show ?case
  proof (cases "birthday x")
    case None
    then have "x \<noteq> r" using assms(2) by auto
    then show ?thesis using None Cons by simp
  next
    case (Some bx)
    show ?thesis
    proof (cases "next_birthday (date bx) today")
      case (Inl e)
      then show ?thesis using Some next_birthday_error [OF Inl] by auto
    next
      case (Inr nb)
      have "x \<noteq> r"
      proof
        assume "x = r"
        then have "bx = b" using Some assms(2) by simp
        then show False
          using Inr replace_leap_day [OF assms(3,4,5)]
          by (auto simp: next_birthday_def split: sum.splits)
      qed
      then show ?thesis using Some Inr Cons by simp
    qed
  qed
qed

text \<open>
  C10. When a record of the book has its birthday on February 29 and today's year is
  not a leap year, putting that month and day into today's year raises a
  \<^verbatim>\<open>ValueError\<close>; \<^verbatim>\<open>get_upcoming_birthdays\<close> raises a \<^verbatim>\<open>ValueError\<close>, whatever the records
  before that one are; and the \<^verbatim>\<open>birthdays\<close> command returns, and the loop prints, the
  message of that error and no name.
\<close>

theorem birthdays_leap_day_error:
  assumes "(k, r) \<in> set (records (book st))" and "birthday r = Some b"
    and "month (date b) = 2" and "day (date b) = 29" and "\<not> is_leap (year today)"
  shows "(\<exists>m. replace_year (date b) (year today) = Inl (ValueError m)) \<and>
         (\<exists>m. get_upcoming_birthdays (book st) 7 today = Inl (ValueError m) \<and>
              birthdays today args st = (Inr m, st) \<and>
              loop_body today ''birthdays'' st = ([m], Continue, st))"
proof -
  have mem: "r \<in> set (map snd (records (book st)))"
    using assms(1) by force
  obtain m where m: "get_upcoming_birthdays (book st) 7 today = Inl (ValueError m)"
    using upcoming_loop_leap_day [OF mem assms(2-5), of 7 "[]"]
    by (auto simp: get_upcoming_birthdays_def)
  have b: "\<And>args. birthdays today args st = (Inr m, st)"
    by (simp add: birthdays_def input_error_def birthdays_body_def m)
  have sp: "split_ws ''birthdays'' = [''birthdays'']"
    by (simp add: split_ws_def is_space_char_def code_def)
  have "loop_body today ''birthdays'' st = ([m], Continue, st)"
    by (simp add: loop_body_def sp b print_result_def)
  then show ?thesis using m b replace_leap_day [OF assms(3,4,5)] by blast
qed


text \<open>
  A birthday on June 15: on June 15, 2024 the result is 0; on December 25, 2024 it is
  the 172 days to June 15, 2025. A birthday on February 29: on February 29, 2024 the
  result is 0. Without a birthday it is \<^verbatim>\<open>None\<close>.
\<close>

theorem days_to_birthday_next_occurrence_witness:
  "days_to_birthday
     \<lparr>name = \<lparr>cls = NameC, oid = 0, fvalue = ''Mary''\<rparr>, phones = [],
       birthday = Some \<lparr>cls = BirthdayC, oid = 1, fvalue = ''15.06.1995'',
                         date = \<lparr>year = 1995, month = 6, day = 15\<rparr>\<rparr>\<rparr>
     \<lparr>year = 2024, month = 6, day = 15\<rparr> = Inr (Some 0) \<and>
   days_to_birthday
     \<lparr>name = \<lparr>cls = NameC, oid = 0, fvalue = ''Mary''\<rparr>, phones = [],
       birthday = Some \<lparr>cls = BirthdayC, oid = 1, fvalue = ''15.06.1995'',
                         date = \<lparr>year = 1995, month = 6, day = 15\<rparr>\<rparr>\<rparr>
     \<lparr>year = 2024, month = 12, day = 25\<rparr> = Inr (Some 172) \<and>
   days_to_birthday
     \<lparr>name = \<lparr>cls = NameC, oid = 0, fvalue = ''Leap''\<rparr>, phones = [],
       birthday = Some \<lparr>cls = BirthdayC, oid = 1, fvalue = ''29.02.2000'',
                         date = \<lparr>year = 2000, month = 2, day = 29\<rparr>\<rparr>\<rparr>
     \<lparr>year = 2024, month = 2, day = 29\<rparr> = Inr (Some 0) \<and>
   days_to_birthday
     \<lparr>name = \<lparr>cls = NameC, oid = 0, fvalue = ''Mary''\<rparr>, phones = [], birthday = None\<rparr>
     \<lparr>year = 2024, month = 12, day = 25\<rparr> = Inr None"
proof -
  let ?r = "\<lparr>name = \<lparr>cls = NameC, oid = 0, fvalue = ''Mary''\<rparr>, phones = [],
       birthday = Some \<lparr>cls = BirthdayC, oid = 1, fvalue = ''15.06.1995'',
                         date = \<lparr>year = 1995, month = 6, day = 15\<rparr>\<rparr>\<rparr>"
  let ?l = "\<lparr>name = \<lparr>cls = NameC, oid = 0, fvalue = ''Leap''\<rparr>, phones = [],
       birthday = Some \<lparr>cls = BirthdayC, oid = 1, fvalue = ''29.02.2000'',
                         date = \<lparr>year = 2000, month = 2, day = 29\<rparr>\<rparr>\<rparr>"
  let ?n = "\<lparr>name = \<lparr>cls = NameC, oid = 0, fvalue = ''Mary''\<rparr>, phones = [], birthday = None\<rparr>"
  have v1: "valid_date \<lparr>year = 2024, month = 6, day = 15\<rparr>"
    by (simp add: valid_date_def days_in_month_def)
  have v2: "valid_date \<lparr>year = 2024, month = 12, day = 25\<rparr>"
    by (simp add: valid_date_def days_in_month_def)
  have v3: "valid_date \<lparr>year = 2024, month = 2, day = 29\<rparr>"
    by (simp add: valid_date_def days_in_month_def is_leap_def)
  have ok: "\<not> isl (days_to_birthday ?r \<lparr>year = 2024, month = 12, day = 25\<rparr>)"
    by (simp add: days_to_birthday_def next_birthday_def replace_year_def date_new_def
        days_in_month_def date_lt_def)
  have d: "days_between \<lparr>year = 2025, month = 6, day = 15\<rparr> \<lparr>year = 2024, month = 12, day = 25\<rparr> = 172"
    by (simp add: days_between_def toordinal_def days_before_year_def days_before_month_def is_leap_def)
  have "days_to_birthday ?r \<lparr>year = 2024, month = 6, day = 15\<rparr> = Inr (Some 0)"
    using days_to_birthday_next_occurrence [of ?r "\<lparr>year = 2024, month = 6, day = 15\<rparr>"] v1
    by simp
  moreover have "days_to_birthday ?r \<lparr>year = 2024, month = 12, day = 25\<rparr> = Inr (Some 172)"
    using days_to_birthday_next_occurrence [of ?r "\<lparr>year = 2024, month = 12, day = 25\<rparr>"] v2 ok d
    by (auto simp: date_lt_def)
  moreover have "days_to_birthday ?l \<lparr>year = 2024, month = 2, day = 29\<rparr> = Inr (Some 0)"
    using days_to_birthday_next_occurrence [of ?l "\<lparr>year = 2024, month = 2, day = 29\<rparr>"] v3
    by simp
  moreover have "days_to_birthday ?n \<lparr>year = 2024, month = 12, day = 25\<rparr> = Inr None"
    using days_to_birthday_next_occurrence [of ?n "\<lparr>year = 2024, month = 12, day = 25\<rparr>"]
    by simp
  ultimately show ?thesis by simp
qed

text \<open>
  C6 as stated fails: for a birthday on February 29, 2000 and today March 1, 2023 the
  call returns no number, it raises.
\<close>

theorem days_to_birthday_leap_day_counterexample:
  "days_to_birthday
     \<lparr>name = \<lparr>cls = NameC, oid = 0, fvalue = ''Leap''\<rparr>, phones = [],
       birthday = Some \<lparr>cls = BirthdayC, oid = 1, fvalue = ''29.02.2000'',
                         date = \<lparr>year = 2000, month = 2, day = 29\<rparr>\<rparr>\<rparr>
     \<lparr>year = 2023, month = 3, day = 1\<rparr> = Inl (ValueError ''day is out of range for month'')"
  by (simp add: days_to_birthday_def next_birthday_def replace_year_def date_new_def
      days_in_month_def is_leap_def)

text \<open>
  On January 1, 2024 with 7 days: Ann, 6 days away, and Eve, whose birthday is today,
  are returned in this order; Bob, 7 days away, and Cid, who has no birthday, are not.
\<close>

theorem get_upcoming_birthdays_window_witness:
  "get_upcoming_birthdays
     \<lparr>records =
        [(''Ann'', \<lparr>name = \<lparr>cls = NameC, oid = 0, fvalue = ''Ann''\<rparr>, phones = [],
                    birthday = Some \<lparr>cls = BirthdayC, oid = 1, fvalue = ''07.01.1990'',
                                      date = \<lparr>year = 1990, month = 1, day = 7\<rparr>\<rparr>\<rparr>),
         (''Bob'', \<lparr>name = \<lparr>cls = NameC, oid = 2, fvalue = ''Bob''\<rparr>, phones = [],
                    birthday = Some \<lparr>cls = BirthdayC, oid = 3, fvalue = ''08.01.1990'',
                                      date = \<lparr>year = 1990, month = 1, day = 8\<rparr>\<rparr>\<rparr>),
         (''Cid'', \<lparr>name = \<lparr>cls = NameC, oid = 4, fvalue = ''Cid''\<rparr>, phones = [],
                    birthday = None\<rparr>),
         (''Eve'', \<lparr>name = \<lparr>cls = NameC, oid = 5, fvalue = ''Eve''\<rparr>, phones = [],
                    birthday = Some \<lparr>cls = BirthdayC, oid = 6, fvalue = ''01.01.2000'',
                                      date = \<lparr>year = 2000, month = 1, day = 1\<rparr>\<rparr>\<rparr>)]\<rparr>
     7 \<lparr>year = 2024, month = 1, day = 1\<rparr> = Inr [''Ann'', ''Eve'']"
proof -
  let ?b = "\<lparr>records =
        [(''Ann'', \<lparr>name = \<lparr>cls = NameC, oid = 0, fvalue = ''Ann''\<rparr>, phones = [],
                    birthday = Some \<lparr>cls = BirthdayC, oid = 1, fvalue = ''07.01.1990'',
                                      date = \<lparr>year = 1990, month = 1, day = 7\<rparr>\<rparr>\<rparr>),
         (''Bob'', \<lparr>name = \<lparr>cls = NameC, oid = 2, fvalue = ''Bob''\<rparr>, phones = [],
                    birthday = Some \<lparr>cls = BirthdayC, oid = 3, fvalue = ''08.01.1990'',
                                      date = \<lparr>year = 1990, month = 1, day = 8\<rparr>\<rparr>\<rparr>),
         (''Cid'', \<lparr>name = \<lparr>cls = NameC, oid = 4, fvalue = ''Cid''\<rparr>, phones = [],
                    birthday = None\<rparr>),
         (''Eve'', \<lparr>name = \<lparr>cls = NameC, oid = 5, fvalue = ''Eve''\<rparr>, phones = [],
                    birthday = Some \<lparr>cls = BirthdayC, oid = 6, fvalue = ''01.01.2000'',
                                      date = \<lparr>year = 2000, month = 1, day = 1\<rparr>\<rparr>\<rparr>)]\<rparr>"
  let ?t = "\<lparr>year = 2024, month = 1, day = 1\<rparr>"
  have ok: "\<forall>r \<in> set (map snd (records ?b)). \<not> isl (days_to_birthday r ?t)"
    by (simp add: days_to_birthday_def next_birthday_def replace_year_def date_new_def
        days_in_month_def date_lt_def)
  have names: "upcoming_names ?b 7 ?t = [''Ann'', ''Eve'']"
    by (simp add: upcoming_names_def in_window_def days_to_birthday_def next_birthday_def
        replace_year_def date_new_def days_in_month_def date_lt_def days_between_def
        toordinal_def days_before_year_def days_before_month_def)
  show ?thesis
    using get_upcoming_birthdays_window [OF ok, of 7] names by simp
qed

text \<open>
  C7 as stated fails: with a record born on February 29 in the book and today March 1,
  2023, the call returns no names, not even Ann's, whose birthday is tomorrow; it raises.
\<close>

theorem get_upcoming_birthdays_leap_day_counterexample:
  "get_upcoming_birthdays
     \<lparr>records =
        [(''Ann'', \<lparr>name = \<lparr>cls = NameC, oid = 0, fvalue = ''Ann''\<rparr>, phones = [],
                    birthday = Some \<lparr>cls = BirthdayC, oid = 1, fvalue = ''02.03.1990'',
                                      date = \<lparr>year = 1990, month = 3, day = 2\<rparr>\<rparr>\<rparr>),
         (''Leap'', \<lparr>name = \<lparr>cls = NameC, oid = 2, fvalue = ''Leap''\<rparr>, phones = [],
                     birthday = Some \<lparr>cls = BirthdayC, oid = 3, fvalue = ''29.02.2000'',
                                       date = \<lparr>year = 2000, month = 2, day = 29\<rparr>\<rparr>\<rparr>)]\<rparr>
     7 \<lparr>year = 2023, month = 3, day = 1\<rparr> = Inl (ValueError ''day is out of range for month'')"
  by (simp add: get_upcoming_birthdays_def next_birthday_def replace_year_def date_new_def
      days_in_month_def is_leap_def date_lt_def)

text \<open>
  On March 1, 2023, with Ann (birthday tomorrow) before a record born on February 29:
  the command prints the message of the error only.
\<close>

theorem birthdays_leap_day_error_witness:
  "replace_year \<lparr>year = 2000, month = 2, day = 29\<rparr> 2023
     = Inl (ValueError ''day is out of range for month'') \<and>
   loop_body \<lparr>year = 2023, month = 3, day = 1\<rparr> ''birthdays''
     \<lparr>book = \<lparr>records =
        [(''Ann'', \<lparr>name = \<lparr>cls = NameC, oid = 0, fvalue = ''Ann''\<rparr>, phones = [],
                    birthday = Some \<lparr>cls = BirthdayC, oid = 1, fvalue = ''02.03.1990'',
                                      date = \<lparr>year = 1990, month = 3, day = 2\<rparr>\<rparr>\<rparr>),
         (''Leap'', \<lparr>name = \<lparr>cls = NameC, oid = 2, fvalue = ''Leap''\<rparr>, phones = [],
                     birthday = Some \<lparr>cls = BirthdayC, oid = 3, fvalue = ''29.02.2000'',
                                       date = \<lparr>year = 2000, month = 2, day = 29\<rparr>\<rparr>\<rparr>)]\<rparr>,
       next_oid = 4\<rparr>
     = ([''day is out of range for month''], Continue,
        \<lparr>book = \<lparr>records =
        [(''Ann'', \<lparr>name = \<lparr>cls = NameC, oid = 0, fvalue = ''Ann''\<rparr>, phones = [],
                    birthday = Some \<lparr>cls = BirthdayC, oid = 1, fvalue = ''02.03.1990'',
                                      date = \<lparr>year = 1990, month = 3, day = 2\<rparr>\<rparr>\<rparr>),
         (''Leap'', \<lparr>name = \<lparr>cls = NameC, oid = 2, fvalue = ''Leap''\<rparr>, phones = [],
                     birthday = Some \<lparr>cls = BirthdayC, oid = 3, fvalue = ''29.02.2000'',
                                       date = \<lparr>year = 2000, month = 2, day = 29\<rparr>\<rparr>\<rparr>)]\<rparr>,
       next_oid = 4\<rparr>)"
proof -
  let ?leap = "\<lparr>name = \<lparr>cls = NameC, oid = 2, fvalue = ''Leap''\<rparr>, phones = [],
                     birthday = Some \<lparr>cls = BirthdayC, oid = 3, fvalue = ''29.02.2000'',
                                       date = \<lparr>year = 2000, month = 2, day = 29\<rparr>\<rparr>\<rparr>"
  let ?b = "\<lparr>cls = BirthdayC, oid = 3, fvalue = ''29.02.2000'',
             date = \<lparr>year = 2000, month = 2, day = 29\<rparr>\<rparr>"
  let ?st = "\<lparr>book = \<lparr>records =
        [(''Ann'', \<lparr>name = \<lparr>cls = NameC, oid = 0, fvalue = ''Ann''\<rparr>, phones = [],
                    birthday = Some \<lparr>cls = BirthdayC, oid = 1, fvalue = ''02.03.1990'',
                                      date = \<lparr>year = 1990, month = 3, day = 2\<rparr>\<rparr>\<rparr>),
         (''Leap'', ?leap)]\<rparr>, next_oid = 4\<rparr>"
  let ?t = "\<lparr>year = 2023, month = 3, day = 1\<rparr>"
  have mem: "(''Leap'', ?leap) \<in> set (records (book ?st))" by simp
  have bd: "birthday ?leap = Some ?b" by simp
  have m: "month (date ?b) = 2" and d: "day (date ?b) = 29" by simp_all
  have nl: "\<not> is_leap (year ?t)" by (simp add: is_leap_def)
  have r: "replace_year \<lparr>year = 2000, month = 2, day = 29\<rparr> 2023
             = Inl (ValueError ''day is out of range for month'')"
    by (simp add: replace_year_def date_new_def days_in_month_def is_leap_def)
  have g: "get_upcoming_birthdays (book ?st) 7 ?t = Inl (ValueError ''day is out of range for month'')"
    by (simp add: get_upcoming_birthdays_def next_birthday_def replace_year_def date_new_def
        days_in_month_def is_leap_def date_lt_def)
  have "loop_body ?t ''birthdays'' ?st = ([''day is out of range for month''], Continue, ?st)"
    using birthdays_leap_day_error [OF mem bd m d nl, of "[]"] g by auto
  then show ?thesis using r by simp
qed

section \<open>Construction of birthdays\<close>

lemma re_class_iff: "(a, r) \<in> set (re_class P s) \<longleftrightarrow> (\<exists>c. a = [c] \<and> s = c # r \<and> P c)"
  by (cases s) (auto simp: re_class_def)

lemma re_seq_iff:
  "(x, r) \<in> set (re_seq p q s) \<longleftrightarrow> (\<exists>a b r1. x = a @ b \<and> (a, r1) \<in> set (p s) \<and> (b, r) \<in> set (q r1))"
  by (force simp: re_seq_def)

lemma re_alt_iff: "(a, r) \<in> set (re_alt p q s) \<longleftrightarrow> (a, r) \<in> set (p s) \<or> (a, r) \<in> set (q s)"
  by (simp add: re_alt_def)

lemma re_two_iff:
  "(a, r) \<in> set (re_seq (re_class P) (re_class Q) s) \<longleftrightarrow> (\<exists>x y. a = [x, y] \<and> s = x # y # r \<and> P x \<and> Q y)"
  by (auto simp: re_seq_iff re_class_iff)

lemma char_eq_code: "(x = c) = (code x = code c)"
  by (auto simp: code_def)

lemma py_int_one: "\<not> is_space_char x \<Longrightarrow> py_int [x] = int (code x) - 48"
  by (simp add: py_int_def)

lemma py_int_two: "\<not> is_space_char x \<Longrightarrow> py_int [x, y] = 10 * (int (code x) - 48) + (int (code y) - 48)"
  by (simp add: py_int_def)

lemma py_int_space: "is_space_char x \<Longrightarrow> \<not> is_space_char y \<Longrightarrow> py_int [x, y] = int (code y) - 48"
  by (simp add: py_int_def)

lemma space_code: "is_space_char x \<longleftrightarrow> (9 \<le> code x \<and> code x \<le> 13) \<or> (28 \<le> code x \<and> code x \<le> 32) \<or> code x = 133 \<or> code x = 160"
  by (simp add: is_space_char_def Let_def)

lemma codes: "code CHR ''3'' = 51" "code CHR ''0'' = 48" "code CHR ''1'' = 49" "code CHR ''2'' = 50"
  "code CHR ''9'' = 57" "code CHR '' '' = 32" "code CHR ''.'' = 46"
  by (simp_all add: code_def)

lemma two_digit_day:
  fixes cx cy :: nat
  assumes "48 \<le> cy" "cy \<le> 57"
  shows "(48 \<le> cx \<and> cx \<le> 57 \<and> 1 \<le> 10 * (int cx - 48) + (int cy - 48) \<and>
          10 * (int cx - 48) + (int cy - 48) \<le> 31) \<longleftrightarrow>
         (cx = 51 \<and> cy \<le> 49) \<or> (49 \<le> cx \<and> cx \<le> 50) \<or> (cx = 48 \<and> 49 \<le> cy)"
  using assms by arith

lemma two_digit_month:
  fixes cx cy :: nat
  assumes "48 \<le> cy" "cy \<le> 57"
  shows "(48 \<le> cx \<and> cx \<le> 57 \<and> 1 \<le> 10 * (int cx - 48) + (int cy - 48) \<and>
          10 * (int cx - 48) + (int cy - 48) \<le> 12) \<longleftrightarrow>
         (cx = 49 \<and> cy \<le> 50) \<or> (cx = 48 \<and> 49 \<le> cy)"
  using assms by arith

lemma day_text_one: "day_text [x] \<longleftrightarrow> 49 \<le> code x \<and> code x \<le> 57"
proof (cases "is_space_char x")
  case True
  then show ?thesis by (auto simp: day_text_def is_decimal_char_def space_code)
next
  case False
  then show ?thesis by (auto simp: day_text_def is_decimal_char_def py_int_one)
qed

lemma day_text_two:
  "day_text [x, y] \<longleftrightarrow>
     (code x = 51 \<and> 48 \<le> code y \<and> code y \<le> 49) \<or>
     (49 \<le> code x \<and> code x \<le> 50 \<and> 48 \<le> code y \<and> code y \<le> 57) \<or>
     (code x = 48 \<and> 49 \<le> code y \<and> code y \<le> 57) \<or>
     (code x = 32 \<and> 49 \<le> code y \<and> code y \<le> 57)"
proof (cases "48 \<le> code y \<and> code y \<le> 57")
  case False
  then show ?thesis by (auto simp: day_text_def is_decimal_char_def)
next
  case y: True
  then have ny: "\<not> is_space_char y" by (auto simp: space_code)
  show ?thesis
  proof (cases "is_space_char x")
    case True
    have "code x = 32 \<longleftrightarrow> x = CHR '' ''"
      using char_eq_code [of x "CHR '' ''"] by (simp add: codes)
    then show ?thesis
      using True y ny by (auto simp: day_text_def is_decimal_char_def py_int_space space_code)
  next
    case False
    then have "x \<noteq> CHR '' ''" by (auto simp: space_code codes)
    moreover have "code x \<noteq> 32" using False by (auto simp: space_code)
    ultimately show ?thesis
      using two_digit_day [of "code y" "code x"] y False
      by (simp add: day_text_def is_decimal_char_def py_int_two)
  qed
qed

lemma re_d_iff: "(a, r) \<in> set (re_d s) \<longleftrightarrow> s = a @ r \<and> day_text a"
proof (cases a)
  case Nil
  then show ?thesis
    by (auto simp: re_d_def re_alt_iff re_two_iff re_lit_def re_range_def re_digit_def
        re_class_iff day_text_def)
next
  case (Cons x xs)
  note a = this
  show ?thesis
  proof (cases xs)
    case Nil
    show ?thesis unfolding a Nil day_text_one
      by (auto simp: re_d_def re_alt_iff re_two_iff re_lit_def re_range_def re_digit_def
          re_class_iff codes)
  next
    case (Cons y ys)
    note xs = this
    show ?thesis
    proof (cases ys)
      case Nil
      show ?thesis unfolding a xs Nil day_text_two
        unfolding re_d_def re_alt_iff re_two_iff re_lit_def re_range_def re_digit_def
          re_class_iff is_decimal_char_def char_eq_code [of _ "CHR ''3''"]
          char_eq_code [of _ "CHR ''0''"] char_eq_code [of _ "CHR '' ''"] codes
        by auto
    next
      case (Cons z zs)
      show ?thesis unfolding a xs Cons
        by (auto simp: re_d_def re_alt_iff re_two_iff re_lit_def re_range_def re_digit_def
            re_class_iff day_text_def)
    qed
  qed
qed


lemma month_text_one: "month_text [x] \<longleftrightarrow> 49 \<le> code x \<and> code x \<le> 57"
proof (cases "is_space_char x")
  case True
  then show ?thesis by (auto simp: month_text_def is_decimal_char_def space_code)
next
  case False
  then show ?thesis by (auto simp: month_text_def is_decimal_char_def py_int_one)
qed

lemma month_text_two:
  "month_text [x, y] \<longleftrightarrow>
     (code x = 49 \<and> 48 \<le> code y \<and> code y \<le> 50) \<or>
     (code x = 48 \<and> 49 \<le> code y \<and> code y \<le> 57)"
proof (cases "48 \<le> code y \<and> code y \<le> 57")
  case False
  then show ?thesis by (auto simp: month_text_def is_decimal_char_def)
next
  case y: True
  show ?thesis
  proof (cases "is_space_char x")
    case True
    then show ?thesis by (auto simp: month_text_def is_decimal_char_def space_code)
  next
    case False
    then show ?thesis
      using two_digit_month [of "code y" "code x"] y
      by (simp add: month_text_def is_decimal_char_def py_int_two)
  qed
qed

lemma re_m_iff: "(a, r) \<in> set (re_m s) \<longleftrightarrow> s = a @ r \<and> month_text a"
proof (cases a)
  case Nil
  then show ?thesis
    by (auto simp: re_m_def re_alt_iff re_two_iff re_lit_def re_range_def
        re_class_iff month_text_def)
next
  case (Cons x xs)
  note a = this
  show ?thesis
  proof (cases xs)
    case Nil
    show ?thesis unfolding a Nil month_text_one
      by (auto simp: re_m_def re_alt_iff re_two_iff re_lit_def re_range_def re_class_iff codes)
  next
    case (Cons y ys)
    note xs = this
    show ?thesis
    proof (cases ys)
      case Nil
      show ?thesis unfolding a xs Nil month_text_two
        unfolding re_m_def re_alt_iff re_two_iff re_lit_def re_range_def
          re_class_iff char_eq_code [of _ "CHR ''1''"] char_eq_code [of _ "CHR ''0''"] codes
        by auto
    next
      case (Cons z zs)
      show ?thesis unfolding a xs Cons
        by (auto simp: re_m_def re_alt_iff re_two_iff re_lit_def re_range_def
            re_class_iff month_text_def)
    qed
  qed
qed

lemma length_four: "length a = 4 \<longleftrightarrow> (\<exists>w x y z. a = [w, x, y, z])"
  by (auto simp: length_Suc_conv numeral_eq_Suc)

lemma re_Y_iff: "(a, r) \<in> set (re_Y s) \<longleftrightarrow> s = a @ r \<and> year_text a"
  unfolding re_Y_def re_digit_def re_seq_iff re_class_iff year_text_def length_four
  by auto

lemma re_dot_iff: "(a, r) \<in> set (re_lit CHR ''.'' s) \<longleftrightarrow> a = ''.'' \<and> s = CHR ''.'' # r"
  by (auto simp: re_lit_def re_class_iff)

lemma format_regex_mem:
  "(d, m, y, r) \<in> set (format_regex s) \<longleftrightarrow>
     (\<exists>r1 p r2 r3 q r4. (d, r1) \<in> set (re_d s) \<and> (p, r2) \<in> set (re_lit CHR ''.'' r1) \<and>
        (m, r3) \<in> set (re_m r2) \<and> (q, r4) \<in> set (re_lit CHR ''.'' r3) \<and> (y, r) \<in> set (re_Y r4))"
  unfolding format_regex_def by (simp add: image_iff Bex_def) blast

lemma format_regex_iff:
  "(d, m, y, r) \<in> set (format_regex s) \<longleftrightarrow>
     s = d @ ''.'' @ m @ ''.'' @ y @ r \<and> day_text d \<and> month_text m \<and> year_text y"
  unfolding format_regex_mem re_d_iff re_m_iff re_Y_iff re_dot_iff by auto


lemma day_text_no_dot: "day_text a \<Longrightarrow> CHR ''.'' \<notin> set a"
proof (cases a)
  case Nil
  then show ?thesis by simp
next
  case (Cons x xs)
  assume d: "day_text a"
  show ?thesis
  proof (cases xs)
    case Nil
    then show ?thesis using d Cons char_eq_code [of "CHR ''.''" x]
      by (auto simp: day_text_one codes)
  next
    case xs: (Cons y ys)
    show ?thesis
    proof (cases ys)
      case Nil
      then show ?thesis
        using d Cons xs char_eq_code [of "CHR ''.''" x] char_eq_code [of "CHR ''.''" y]
        by (auto simp: day_text_two codes)
    next
      case (Cons z zs)
      then show ?thesis using d \<open>a = x # xs\<close> xs by (simp add: day_text_def)
    qed
  qed
qed

lemma month_text_no_dot: "month_text a \<Longrightarrow> CHR ''.'' \<notin> set a"
proof (cases a)
  case Nil
  then show ?thesis by simp
next
  case (Cons x xs)
  assume d: "month_text a"
  show ?thesis
  proof (cases xs)
    case Nil
    then show ?thesis using d Cons char_eq_code [of "CHR ''.''" x]
      by (auto simp: month_text_one codes)
  next
    case xs: (Cons y ys)
    show ?thesis
    proof (cases ys)
      case Nil
      then show ?thesis
        using d Cons xs char_eq_code [of "CHR ''.''" x] char_eq_code [of "CHR ''.''" y]
        by (auto simp: month_text_two codes)
    next
      case (Cons z zs)
      then show ?thesis using d \<open>a = x # xs\<close> xs by (simp add: month_text_def)
    qed
  qed
qed

lemma split_at_dot:
  assumes "CHR ''.'' \<notin> set a" "CHR ''.'' \<notin> set a'" "a @ CHR ''.'' # x = a' @ CHR ''.'' # x'"
  shows "a = a' \<and> x = x'"
proof -
  have "takeWhile (\<lambda>c. c \<noteq> CHR ''.'') (a @ CHR ''.'' # x) = a"
    using assms(1) by (subst takeWhile_append2) auto
  moreover have "takeWhile (\<lambda>c. c \<noteq> CHR ''.'') (a' @ CHR ''.'' # x') = a'"
    using assms(2) by (subst takeWhile_append2) auto
  ultimately have "a = a'" using assms(3) by simp
  then show ?thesis using assms(3) by simp
qed

lemma format_regex_unique:
  assumes "(d, m, y, r) \<in> set (format_regex s)" "(d', m', y', r') \<in> set (format_regex s)"
  shows "d = d' \<and> m = m' \<and> y = y' \<and> r = r'"
proof -
  have 1: "s = d @ CHR ''.'' # (m @ CHR ''.'' # (y @ r))" "day_text d" "month_text m" "year_text y"
    using assms(1) by (simp_all add: format_regex_iff)
  have 2: "s = d' @ CHR ''.'' # (m' @ CHR ''.'' # (y' @ r'))" "day_text d'" "month_text m'" "year_text y'"
    using assms(2) by (simp_all add: format_regex_iff)
  have eq: "d @ CHR ''.'' # (m @ CHR ''.'' # (y @ r)) = d' @ CHR ''.'' # (m' @ CHR ''.'' # (y' @ r'))"
    using 1(1) 2(1) by simp
  have d: "d = d'" and rest: "m @ CHR ''.'' # (y @ r) = m' @ CHR ''.'' # (y' @ r')"
    using split_at_dot [OF day_text_no_dot [OF 1(2)] day_text_no_dot [OF 2(2)] eq]
    by simp_all
  have m: "m = m'" and rest2: "y @ r = y' @ r'"
    using split_at_dot [OF month_text_no_dot [OF 1(3)] month_text_no_dot [OF 2(3)] rest]
    by simp_all
  have "length y = length y'" using 1(4) 2(4) by (simp add: year_text_def)
  then have "y = y' \<and> r = r'" using rest2 by simp
  then show ?thesis using d m by simp
qed

lemma date_new_iff:
  "date_new y m d = Inr dt \<longleftrightarrow> dt = \<lparr>year = y, month = m, day = d\<rparr> \<and> valid_date dt"
  by (auto simp: date_new_def valid_date_def)

lemma strptime_iff:
  "strptime s = Inr dt \<longleftrightarrow>
     (\<exists>ds ms ys. s = ds @ ''.'' @ ms @ ''.'' @ ys \<and> day_text ds \<and> month_text ms \<and> year_text ys \<and>
        dt = \<lparr>year = py_int ys, month = py_int ms, day = py_int ds\<rparr> \<and> valid_date dt)"
proof
  assume ok: "strptime s = Inr dt"
  then obtain d m y rest other where f: "format_regex s = (d, m, y, rest) # other"
    by (auto simp: strptime_def split: list.splits)
  have rest: "rest = []" and dn: "date_new (py_int y) (py_int m) (py_int d) = Inr dt"
    using ok f by (auto simp: strptime_def split: if_splits)
  have "(d, m, y, []) \<in> set (format_regex s)" using f rest by simp
  then show "\<exists>ds ms ys. s = ds @ ''.'' @ ms @ ''.'' @ ys \<and> day_text ds \<and> month_text ms \<and>
        year_text ys \<and> dt = \<lparr>year = py_int ys, month = py_int ms, day = py_int ds\<rparr> \<and> valid_date dt"
    using dn by (auto simp: format_regex_iff date_new_iff)
next
  assume "\<exists>ds ms ys. s = ds @ ''.'' @ ms @ ''.'' @ ys \<and> day_text ds \<and> month_text ms \<and>
        year_text ys \<and> dt = \<lparr>year = py_int ys, month = py_int ms, day = py_int ds\<rparr> \<and> valid_date dt"
  then obtain ds ms ys where s: "s = ds @ ''.'' @ ms @ ''.'' @ ys" and t: "day_text ds" "month_text ms" "year_text ys"
    and dt: "dt = \<lparr>year = py_int ys, month = py_int ms, day = py_int ds\<rparr>" "valid_date dt"
    by blast
  have mem: "(ds, ms, ys, []) \<in> set (format_regex s)"
    using s t by (simp add: format_regex_iff)
  then obtain d m y rest other where f: "format_regex s = (d, m, y, rest) # other"
    by (cases "format_regex s") auto
  then have "(d, m, y, rest) \<in> set (format_regex s)" by simp
  then have eq: "d = ds \<and> m = ms \<and> y = ys \<and> rest = []"
    using format_regex_unique mem by blast
  show "strptime s = Inr dt"
    using f eq dt by (simp add: strptime_def date_new_iff)
qed

lemma strptime_error: "strptime s = Inl e \<Longrightarrow> \<exists>m. e = ValueError m"
  by (auto simp: strptime_def date_new_def year_out_of_range_def split: list.splits if_splits)

text \<open>
  C4, as the code has it, for the texts of the model (characters U+0000 to U+00FF,
  where the digits of the library are \<^verbatim>\<open>0\<close> to \<^verbatim>\<open>9\<close>).
  \<^verbatim>\<open>Birthday(s)\<close> succeeds exactly when \<open>s\<close> is a day, a dot, a
  month, a dot and a year, where the day is 1 to 31 in one or two digits (the leading
  zero may be missing, or be a space), the month is 1 to 12 in one or two digits, the
  year has four digits, and the three numbers are a date of the calendar; the birthday
  then holds the text and that date. In every other case the constructor raises the
  \<^verbatim>\<open>ValueError\<close> of the invalid format.
\<close>

theorem Birthday_init_iff:
  "(Birthday_init i s = Inr b \<longleftrightarrow>
      (\<exists>ds ms ys. s = ds @ ''.'' @ ms @ ''.'' @ ys \<and> day_text ds \<and> month_text ms \<and> year_text ys \<and>
         valid_date \<lparr>year = py_int ys, month = py_int ms, day = py_int ds\<rparr> \<and>
         b = \<lparr>cls = BirthdayC, oid = i, fvalue = s,
              date = \<lparr>year = py_int ys, month = py_int ms, day = py_int ds\<rparr>\<rparr>)) \<and>
   (Birthday_init i s = Inl (ValueError ''Invalid date format. Use DD.MM.YYYY'') \<or>
    (\<exists>d. Birthday_init i s = Inr \<lparr>cls = BirthdayC, oid = i, fvalue = s, date = d\<rparr>))"
proof -
  have init: "Birthday_init i s =
      (case strptime s of Inl e \<Rightarrow> Inl (ValueError ''Invalid date format. Use DD.MM.YYYY'')
       | Inr d \<Rightarrow> Inr \<lparr>cls = BirthdayC, oid = i, fvalue = s, date = d\<rparr>)"
    using strptime_error [of s]
    by (auto simp: Birthday_init_def set_value_def split: sum.splits error.splits)
  have "Birthday_init i s = Inr b \<longleftrightarrow>
          (\<exists>dt. strptime s = Inr dt \<and> b = \<lparr>cls = BirthdayC, oid = i, fvalue = s, date = dt\<rparr>)"
    by (auto simp: init split: sum.splits)
  then have first: "Birthday_init i s = Inr b \<longleftrightarrow>
      (\<exists>ds ms ys. s = ds @ ''.'' @ ms @ ''.'' @ ys \<and> day_text ds \<and> month_text ms \<and> year_text ys \<and>
         valid_date \<lparr>year = py_int ys, month = py_int ms, day = py_int ds\<rparr> \<and>
         b = \<lparr>cls = BirthdayC, oid = i, fvalue = s,
              date = \<lparr>year = py_int ys, month = py_int ms, day = py_int ds\<rparr>\<rparr>)"
    unfolding strptime_iff by blast
  have second: "Birthday_init i s = Inl (ValueError ''Invalid date format. Use DD.MM.YYYY'') \<or>
    (\<exists>d. Birthday_init i s = Inr \<lparr>cls = BirthdayC, oid = i, fvalue = s, date = d\<rparr>)"
    by (simp add: init split: sum.splits)
  show ?thesis using first second by blast
qed


text \<open>The examples of the specification: one text that is accepted and two that are refused.\<close>

theorem Birthday_init_iff_witness:
  "Birthday_init 0 ''01.01.1990''
     = Inr \<lparr>cls = BirthdayC, oid = 0, fvalue = ''01.01.1990'',
            date = \<lparr>year = 1990, month = 1, day = 1\<rparr>\<rparr> \<and>
   Birthday_init 0 ''31.02.1990'' = Inl (ValueError ''Invalid date format. Use DD.MM.YYYY'') \<and>
   Birthday_init 0 ''1990-01-01'' = Inl (ValueError ''Invalid date format. Use DD.MM.YYYY'')"
proof -
  have texts: "day_text ''01''" "month_text ''01''" "year_text ''1990''"
    by (simp_all add: day_text_def month_text_def year_text_def is_decimal_char_def
        is_space_char_def py_int_def code_def)
  have ints: "py_int ''01'' = 1" "py_int ''1990'' = 1990"
    by (simp_all add: py_int_def is_space_char_def code_def)
  have valid: "valid_date \<lparr>year = 1990, month = 1, day = 1\<rparr>"
    by (simp add: valid_date_def days_in_month_def)
  have "\<exists>ds ms ys. ''01.01.1990'' = ds @ ''.'' @ ms @ ''.'' @ ys \<and> day_text ds \<and> month_text ms \<and>
          year_text ys \<and> valid_date \<lparr>year = py_int ys, month = py_int ms, day = py_int ds\<rparr> \<and>
          \<lparr>cls = BirthdayC, oid = 0, fvalue = ''01.01.1990'',
            date = \<lparr>year = 1990, month = 1, day = 1\<rparr>\<rparr>
          = \<lparr>cls = BirthdayC, oid = 0, fvalue = ''01.01.1990'',
             date = \<lparr>year = py_int ys, month = py_int ms, day = py_int ds\<rparr>\<rparr>"
    using texts ints valid
    by (intro exI [of _ "''01''"] exI [of _ "''1990''"]) simp
  then have "Birthday_init 0 ''01.01.1990''
     = Inr \<lparr>cls = BirthdayC, oid = 0, fvalue = ''01.01.1990'',
            date = \<lparr>year = 1990, month = 1, day = 1\<rparr>\<rparr>"
    using Birthday_init_iff [of 0 "''01.01.1990''"] by blast
  moreover have "Birthday_init 0 ''31.02.1990'' = Inl (ValueError ''Invalid date format. Use DD.MM.YYYY'')"
    by code_simp
  moreover have "Birthday_init 0 ''1990-01-01'' = Inl (ValueError ''Invalid date format. Use DD.MM.YYYY'')"
    by code_simp
  ultimately show ?thesis by simp
qed

text \<open>
  C4 as stated fails: the text \<^verbatim>\<open>1.1.1990\<close>, with a one-digit day and month, is accepted
  and decodes to January 1, 1990.
\<close>

theorem Birthday_init_one_digit_counterexample:
  "Birthday_init 0 ''1.1.1990''
     = Inr \<lparr>cls = BirthdayC, oid = 0, fvalue = ''1.1.1990'',
            date = \<lparr>year = 1990, month = 1, day = 1\<rparr>\<rparr>"
  by code_simp

end
